theory Spec2Isabelle
  imports Main "HOL-Library.Word"
begin

unbundle bit_operations_syntax

section \<open>Bytes, the inbound message and the checksum\<close>

text \<open>
  This theory embeds the network connection core of the server:
  \<^verbatim>\<open>src/server/server.cpp\<close> (ServicePort) and
  \<^verbatim>\<open>src/server/network/connection/connection.cpp\<close> (Connection).

  Conventions of the embedding.
  \<^item> A member function becomes a function from the object's state to its new state;
    a value it returns is paired with the state.
  \<^item> Calls into collaborators that are not part of the two files (timers, the socket,
    the reactor, the dispatcher, the logger, the connection manager, the protocol
    handlers) are recorded, in call order, in the \<open>trace\<close> field of the state.
  \<^item> What the collaborators answer is an input: the record \<open>env\<close> holds the clock
    readings, the result of the endpoint query, the answer of the ban policy, the
    value returned by \<open>onRecvMessage\<close>, and whether a reactor call inside a
    \<^verbatim>\<open>try\<close> block raises \<^verbatim>\<open>std::system_error\<close>.
  \<^item> Each handler runs under the connection's recursive lock; the embedding is the
    sequential behaviour of one handler invocation.
\<close>

type_synonym u8 = "8 word"
type_synonym u16 = "16 word"
type_synonym u32 = "32 word"

text \<open>
  Modelled from the spec: the compile-time constants \<open>HEADER_LENGTH = 2\<close> and
  \<open>CHECKSUM_LENGTH = 4\<close> are declared in a header that is not among the sources.
\<close>

definition HEADER_LENGTH :: nat where
  "HEADER_LENGTH = 2"

definition CHECKSUM_LENGTH :: nat where
  "CHECKSUM_LENGTH = 4"

text \<open>
  Modelled from the spec: the class NetworkMessage is not among the sources. The spec
  describes it as a byte buffer with a length field and a read cursor, with helpers to
  peek the 2-byte little-endian length header and to address the body after the header.
  The buffer is a fixed array in the program; here it is a list, and a byte beyond the
  end of the list reads as 0.
\<close>

record NetworkMessage =
  buffer :: "u8 list"
  info_length :: nat
  info_position :: nat

definition byteAt :: "u8 list \<Rightarrow> nat \<Rightarrow> u8" where
  "byteAt b i = (if i < length b then b ! i else 0)"

definition bytesAt :: "u8 list \<Rightarrow> nat \<Rightarrow> nat \<Rightarrow> u8 list" where
  "bytesAt b off n = map (byteAt b) [off ..< off + n]"

definition getLength :: "NetworkMessage \<Rightarrow> nat" where
  "getLength m = info_length m"

definition setLength :: "nat \<Rightarrow> NetworkMessage \<Rightarrow> NetworkMessage" where
  "setLength newLength m = m\<lparr>info_length := newLength\<rparr>"

definition getBufferPosition :: "NetworkMessage \<Rightarrow> nat" where
  "getBufferPosition m = info_position m"

text \<open>\<open>getLengthHeader\<close>: the first two bytes of the buffer, little-endian.\<close>

definition getLengthHeader :: "NetworkMessage \<Rightarrow> u16" where
  "getLengthHeader m =
     (ucast (byteAt (buffer m) 0) OR push_bit 8 (ucast (byteAt (buffer m) 1)))"

text \<open>\<open>getByte\<close>: the byte under the cursor; the cursor advances by one.\<close>

definition getByte :: "NetworkMessage \<Rightarrow> u8 \<times> NetworkMessage" where
  "getByte m =
     (byteAt (buffer m) (info_position m), m\<lparr>info_position := info_position m + 1\<rparr>)"

text \<open>
  \<open>get<uint32_t>\<close>: the four bytes under the cursor, little-endian; the cursor
  advances by four.
\<close>

definition get_u32 :: "NetworkMessage \<Rightarrow> u32 \<times> NetworkMessage" where
  "get_u32 m =
     (let p = info_position m; b = buffer m in
      (ucast (byteAt b p) OR push_bit 8 (ucast (byteAt b (p + 1)))
         OR push_bit 16 (ucast (byteAt b (p + 2))) OR push_bit 24 (ucast (byteAt b (p + 3))),
       m\<lparr>info_position := p + 4\<rparr>))"

text \<open>\<open>skipBytes\<close>: the cursor moves by a signed count.\<close>

definition skipBytes :: "int \<Rightarrow> NetworkMessage \<Rightarrow> NetworkMessage" where
  "skipBytes count m = m\<lparr>info_position := nat (int (info_position m) + count)\<rparr>"

text \<open>
  \<open>getBodyBuffer\<close>: the body region starts \<open>HEADER_LENGTH\<close> bytes into the buffer; the
  cursor is placed there.
\<close>

definition getBodyBuffer :: "NetworkMessage \<Rightarrow> nat \<times> NetworkMessage" where
  "getBodyBuffer m = (HEADER_LENGTH, m\<lparr>info_position := HEADER_LENGTH\<rparr>)"

text \<open>
  Modelled from the spec: \<open>adlerChecksum\<close> is not among the sources; the spec names it
  Adler-32, the running sums \<open>a\<close> (starting at 1) and \<open>b\<close> (starting at 0) modulo 65521,
  returned as \<open>b * 2^16 + a\<close>.
\<close>

fun adler_loop :: "nat \<Rightarrow> nat \<Rightarrow> u8 list \<Rightarrow> nat \<times> nat" where
  "adler_loop a b [] = (a, b)"
| "adler_loop a b (x # xs) =
     (let a' = (a + unat x) mod 65521; b' = (b + a') mod 65521 in adler_loop a' b' xs)"

definition adlerChecksum :: "u8 list \<Rightarrow> u32" where
  "adlerChecksum data =
     (case adler_loop 1 0 data of (a, b) \<Rightarrow> push_bit 16 (of_nat b) OR of_nat a)"

section \<open>Services and the service port\<close>

text \<open>
  The class Service is declared outside the sources; the port reads it through
  \<open>is_single_socket\<close>, \<open>is_checksummed\<close>, \<open>get_protocol_identifier\<close>,
  \<open>get_protocol_name\<close> and the factory \<open>make_protocol(connection)\<close>. A protocol object
  is identified here by the service whose factory made it.
\<close>

record Service =
  get_protocol_identifier :: u8
  is_checksummed :: bool
  is_single_socket :: bool
  get_protocol_name :: string

datatype Protocol = Protocol_of Service

definition Service_make_protocol :: "Service \<Rightarrow> Protocol" where
  "Service_make_protocol service = Protocol_of service"

datatype port_event =
    CreateConnection
  | AsyncAccept
  | AcceptorClose
  | DeadlineTimerArm nat

text \<open>
  \<open>acceptor\<close> is \<open>None\<close> when the port has no acceptor object, and \<open>Some isopen\<close>
  otherwise.
\<close>

record ServicePort =
  services :: "Service list"
  acceptor :: "bool option"
  pendingStart :: bool
  serverPort :: u16
  port_trace :: "port_event list"

definition ServicePort_is_single_socket :: "ServicePort \<Rightarrow> bool" where
  "ServicePort_is_single_socket sp =
     (services sp \<noteq> [] \<and> is_single_socket (hd (services sp)))"

text \<open>The loop of \<open>ServicePort::make_protocol\<close> over the services, in list order.\<close>

fun make_protocol_loop :: "bool \<Rightarrow> u8 \<Rightarrow> Service list \<Rightarrow> Protocol option" where
  "make_protocol_loop checksummed protocolID [] = None"
| "make_protocol_loop checksummed protocolID (service # rest) =
     (if protocolID \<noteq> get_protocol_identifier service
      then make_protocol_loop checksummed protocolID rest
      else if (checksummed \<and> is_checksummed service) \<or> \<not> is_checksummed service
      then Some (Service_make_protocol service)
      else make_protocol_loop checksummed protocolID rest)"

definition make_protocol ::
  "ServicePort \<Rightarrow> bool \<Rightarrow> NetworkMessage \<Rightarrow> Protocol option \<times> NetworkMessage" where
  "make_protocol sp checksummed m =
     (case getByte m of
        (protocolID, m') \<Rightarrow> (make_protocol_loop checksummed protocolID (services sp), m'))"

definition add_service :: "Service \<Rightarrow> ServicePort \<Rightarrow> bool \<times> ServicePort" where
  "add_service new_svc sp =
     (if list_ex is_single_socket (services sp) then (False, sp)
      else (True, sp\<lparr>services := services sp @ [new_svc]\<rparr>))"

text \<open>A sequence of \<open>add_service\<close> calls on one port; the returned flags are dropped.\<close>

fun add_services :: "Service list \<Rightarrow> ServicePort \<Rightarrow> ServicePort" where
  "add_services [] sp = sp"
| "add_services (new_svc # rest) sp = add_services rest (snd (add_service new_svc sp))"

definition accept_port :: "ServicePort \<Rightarrow> ServicePort" where
  "accept_port sp =
     (if acceptor sp = None then sp
      else sp\<lparr>port_trace := port_trace sp @ [CreateConnection, AsyncAccept]\<rparr>)"

definition close_port :: "ServicePort \<Rightarrow> ServicePort" where
  "close_port sp =
     (if acceptor sp = Some True
      then sp\<lparr>acceptor := Some False, port_trace := port_trace sp @ [AcceptorClose]\<rparr>
      else sp)"

section \<open>The connection\<close>

datatype ConnectionState_t =
    CONNECTION_STATE_OPEN
  | CONNECTION_STATE_IDENTIFYING
  | CONNECTION_STATE_READINGS
  | CONNECTION_STATE_CLOSED

text \<open>
  The error codes the handlers tell apart; a completion without error is \<open>None\<close> of
  type \<open>error_code option\<close>.
\<close>

datatype error_code = operation_aborted | eof | connection_reset | not_connected | other_error

datatype callback = To_parseProxyIdentification | To_parseHeader | To_parsePacket

datatype log_level = LogDebug | LogWarn | LogError

type_synonym OutputMessage = "u8 list"

text \<open>
  The calls into collaborators. \<open>AsyncRead off n cb\<close> is a read of exactly \<open>n\<close> bytes
  into the message buffer at offset \<open>off\<close> whose completion is \<open>cb\<close>; \<open>ReadTimerArm\<close>
  is \<open>expires_from_now\<close> followed by \<open>async_wait\<close> with \<open>handleTimeout\<close>;
  \<open>AddEvent_release\<close> and \<open>AddEvent_onConnect\<close> are the dispatcher events that will
  call \<open>protocol->release()\<close> and \<open>protocol->onConnect()\<close>.
\<close>

datatype event =
    ReleaseConnection
  | AddEvent_release Protocol
  | AddEvent_onConnect Protocol
  | ReadTimerCancel
  | WriteTimerCancel
  | SocketCancel
  | SocketShutdown
  | SocketClose
  | ReadTimerArm
  | WriteTimerArm
  | AsyncRead nat nat callback
  | AsyncWrite OutputMessage
  | Post_internalWorker
  | OnRecvFirstMessage Protocol NetworkMessage
  | OnRecvMessage Protocol NetworkMessage
  | OnSendMessage Protocol OutputMessage
  | RemoteEndpointQuery
  | Log log_level

text \<open>
  Which reactor call of a handler raises \<^verbatim>\<open>std::system_error\<close>, if any: the calls
  that arm a timer (\<open>expires_from_now\<close>, \<open>async_wait\<close>), or the request that follows
  them (\<open>async_read\<close>, \<open>async_write\<close>, \<open>asio::post\<close>). Inside a \<^verbatim>\<open>try\<close> block the
  exception reaches the \<^verbatim>\<open>catch\<close> handler; outside one it leaves the handler. The
  cancellation of a timer at the start of a completion handler is taken not to raise.
\<close>

datatype try_outcome = NoRaise | TimerRaises | RequestRaises

text \<open>
  The answers of the collaborators during one handler invocation. \<open>time_first\<close> and
  \<open>time_second\<close> are the two readings of \<open>time(nullptr)\<close> in \<open>parseHeader\<close>;
  \<open>remote_endpoint\<close> is \<open>None\<close> when \<open>socket.remote_endpoint\<close> reports an error and
  otherwise the value \<open>htonl(endpoint.address().to_v4().to_uint())\<close>; \<open>cancel_raises\<close>
  says that one of the cancellations in \<open>closeSocket\<close> raises.
\<close>

record env =
  reactor :: try_outcome
  cancel_raises :: bool
  shutdown_error :: "error_code option"
  close_error :: "error_code option"
  time_first :: int
  time_second :: int
  remote_endpoint :: "u32 option"
  ban_acceptConnection :: "u32 \<Rightarrow> bool"
  onRecvMessage_result :: bool

text \<open>
  The configuration values and the compile-time constants whose values are declared
  outside the sources; they are parameters of the embedding.
\<close>

record config =
  SERVER_NAME :: "u8 list"
  MAX_PACKETS_PER_SECOND :: int
  INPUTMESSAGE_MAXSIZE :: nat
  CONNECTION_READ_TIMEOUT :: nat
  CONNECTION_WRITE_TIMEOUT :: nat

text \<open>
  The fields of a Connection. \<open>service_port\<close> is the port the connection reads its
  services from; \<open>socket_is_open\<close> is \<open>socket.is_open()\<close>; \<open>timeConnected\<close> is a
  \<open>time_t\<close>, \<open>packetsSent\<close> and \<open>ip\<close> are 32-bit unsigned.
\<close>

record Connection =
  connectionState :: ConnectionState_t
  ip :: u32
  receivedFirst :: bool
  packetsSent :: u32
  timeConnected :: int
  protocol :: "Protocol option"
  msg :: NetworkMessage
  messageQueue :: "OutputMessage list"
  socket_is_open :: bool
  service_port :: ServicePort
  trace :: "event list"

text \<open>
  Dereferencing a null \<open>protocol\<close> and \<open>pop_front\<close> on an empty queue are undefined in
  the program; the embedding returns them as faults. \<open>UncaughtSystemError\<close> is a
  \<^verbatim>\<open>std::system_error\<close> that no \<^verbatim>\<open>catch\<close> handler of the connection receives: it leaves
  the completion handler.
\<close>

datatype fault = NullProtocol | EmptyQueue | UncaughtSystemError

definition emit :: "event \<Rightarrow> Connection \<Rightarrow> Connection" where
  "emit ev c = c\<lparr>trace := trace c @ [ev]\<rparr>"

definition getIP :: "env \<Rightarrow> Connection \<Rightarrow> u32 \<times> Connection" where
  "getIP e c =
     (let c' =
        (if ip c = 1 then
           (case remote_endpoint e of
              None \<Rightarrow> (emit (Log LogError) (emit RemoteEndpointQuery c))\<lparr>ip := 0\<rparr>
            | Some newIp \<Rightarrow> (emit RemoteEndpointQuery c)\<lparr>ip := newIp\<rparr>)
         else c)
      in (ip c', c'))"

text \<open>
  \<open>closeSocket\<close>. When a cancellation raises, the handler logs and the socket stays
  open; which cancellations had completed is not recorded.
\<close>

definition closeSocket :: "env \<Rightarrow> Connection \<Rightarrow> Connection" where
  "closeSocket e c =
     (if \<not> socket_is_open c then c
      else if cancel_raises e then emit (Log LogError) c
      else
        let c1 = emit SocketShutdown
                   (emit SocketCancel (emit WriteTimerCancel (emit ReadTimerCancel c)));
            c2 = (if shutdown_error e \<noteq> None \<and> shutdown_error e \<noteq> Some not_connected
                  then emit (Log LogError) c1 else c1);
            c3 = (emit SocketClose c2)\<lparr>socket_is_open := False\<rparr>
        in if close_error e \<noteq> None \<and> close_error e \<noteq> Some not_connected
           then emit (Log LogError) c3 else c3)"

text \<open>
  \<open>close(bool force)\<close>. Modelled from the spec: the declaration is in a header outside
  the sources; a call \<open>close()\<close> without argument is the non-force close, and
  \<open>FORCE_CLOSE\<close> is \<open>true\<close>.
\<close>

definition close :: "bool \<Rightarrow> env \<Rightarrow> Connection \<Rightarrow> Connection" where
  "close force e c =
     (let c1 = (emit ReleaseConnection c)\<lparr>ip := 0\<rparr> in
      if connectionState c1 = CONNECTION_STATE_CLOSED then c1
      else
        let c2 = c1\<lparr>connectionState := CONNECTION_STATE_CLOSED\<rparr>;
            c3 = (case protocol c2 of
                    Some p \<Rightarrow> emit (AddEvent_release p) c2
                  | None \<Rightarrow> c2)
        in if messageQueue c3 = [] \<or> force then closeSocket e c3 else c3)"

text \<open>The \<^verbatim>\<open>catch\<close> handler shared by the read and write paths: log, then \<open>close(FORCE_CLOSE)\<close>.\<close>

definition on_system_error :: "env \<Rightarrow> Connection \<Rightarrow> Connection" where
  "on_system_error e c = close True e (emit (Log LogError) c)"

text \<open>
  The \<^verbatim>\<open>try\<close> block that arms the read timer and then requests a read of \<open>n\<close> bytes
  at offset \<open>off\<close> completing in \<open>cb\<close>, with its \<^verbatim>\<open>catch\<close> handler.
\<close>

definition try_arm_and_read :: "env \<Rightarrow> nat \<Rightarrow> nat \<Rightarrow> callback \<Rightarrow> Connection \<Rightarrow> Connection" where
  "try_arm_and_read e off n cb c =
     (case reactor e of
        TimerRaises \<Rightarrow> on_system_error e c
      | RequestRaises \<Rightarrow> on_system_error e (emit ReadTimerArm c)
      | NoRaise \<Rightarrow> emit (AsyncRead off n cb) (emit ReadTimerArm c))"

text \<open>\<open>Connection::accept(Protocol_ptr)\<close> and \<open>Connection::accept()\<close>.\<close>

definition accept_protocol :: "Protocol \<Rightarrow> env \<Rightarrow> Connection \<Rightarrow> Connection" where
  "accept_protocol protocolPtr e c =
     try_arm_and_read e 0 HEADER_LENGTH To_parseProxyIdentification
       (emit (AddEvent_onConnect protocolPtr)
          (c\<lparr>connectionState := CONNECTION_STATE_IDENTIFYING, protocol := Some protocolPtr\<rparr>))"

definition accept_plain :: "env \<Rightarrow> Connection \<Rightarrow> Connection" where
  "accept_plain e c = try_arm_and_read e 0 HEADER_LENGTH To_parseHeader c"

text \<open>
  \<open>parseHeader\<close>. \<open>std::max<uint32_t>\<close> converts both arguments to 32-bit unsigned;
  \<open>++packetsSent\<close> is 32-bit; the configured limit is cast to 32-bit unsigned.
\<close>

definition parseHeader :: "config \<Rightarrow> error_code option \<Rightarrow> env \<Rightarrow> Connection \<Rightarrow> Connection" where
  "parseHeader cfg error e c0 =
     (let c = emit ReadTimerCancel c0 in
      case error of
        Some err \<Rightarrow>
          close True e
            (if err \<noteq> operation_aborted \<and> err \<noteq> eof \<and> err \<noteq> connection_reset
             then emit (Log LogDebug) c else c)
      | None \<Rightarrow>
          if connectionState c = CONNECTION_STATE_CLOSED then c
          else
            let timePassed = max (1 :: u32) (word_of_int (time_first e - timeConnected c + 1));
                c1 = c\<lparr>packetsSent := packetsSent c + 1\<rparr>
            in if packetsSent c1 div timePassed > word_of_int (MAX_PACKETS_PER_SECOND cfg)
               then close False e (emit (Log LogWarn) (snd (getIP e c1)))
               else
                 let c2 = (if timePassed > 2
                           then c1\<lparr>timeConnected := time_second e, packetsSent := 0\<rparr>
                           else c1);
                     size = getLengthHeader (msg c2)
                 in if size = 0 \<or> unat size > INPUTMESSAGE_MAXSIZE cfg
                    then close True e c2
                    else
                      (case reactor e of
                         TimerRaises \<Rightarrow> on_system_error e c2
                       | outcome \<Rightarrow>
                           let c3 = emit ReadTimerArm c2;
                               c4 = c3\<lparr>msg := setLength (unat size + HEADER_LENGTH) (msg c3)\<rparr>;
                               (off, m) = getBodyBuffer (msg c4);
                               c5 = c4\<lparr>msg := m\<rparr>
                           in if outcome = RequestRaises then on_system_error e c5
                              else emit (AsyncRead off (unat size) To_parsePacket) c5))"

text \<open>
  The C library's \<open>tolower\<close> (C locale) and \<open>strncasecmp\<close>: at most \<open>n\<close> characters are
  compared, and the comparison stops after a NUL. A string that has run out reads as
  NUL, which for the server name is the terminator of \<open>std::string\<close>.
\<close>

definition tolower :: "u8 \<Rightarrow> u8" where
  "tolower ch = (if 0x41 \<le> ch \<and> ch \<le> 0x5A then ch + 0x20 else ch)"

fun strncasecmp :: "u8 list \<Rightarrow> u8 list \<Rightarrow> nat \<Rightarrow> int" where
  "strncasecmp s1 s2 0 = 0"
| "strncasecmp s1 s2 (Suc n) =
     (let c1 = tolower (byteAt s1 0); c2 = tolower (byteAt s2 0) in
      if c1 \<noteq> c2 then uint c1 - uint c2
      else if c1 = 0 then 0
      else strncasecmp (tl s1) (tl s2) n)"

text \<open>
  \<open>a - b\<close> in \<open>size_t\<close> (64-bit unsigned), for two sizes: the difference, wrapped
  around by \<open>2^64\<close> when \<open>b\<close> exceeds \<open>a\<close>.
\<close>

definition size_t_minus :: "nat \<Rightarrow> nat \<Rightarrow> nat" where
  "size_t_minus a b = (if b \<le> a then a - b else 2 ^ 64 + a - b)"

text \<open>
  The end of \<open>parseProxyIdentification\<close>: the read timer is armed outside the
  \<^verbatim>\<open>try\<close> block, so an exception of these calls leaves the handler, with nothing
  armed and no read requested; the header read is requested inside the \<^verbatim>\<open>try\<close> block.
\<close>

definition parseProxyIdentification_tail :: "env \<Rightarrow> Connection \<Rightarrow> fault + Connection" where
  "parseProxyIdentification_tail e c =
     (if reactor e = TimerRaises then Inl UncaughtSystemError
      else
        let c1 = emit ReadTimerArm c in
        if reactor e = RequestRaises then Inr (on_system_error e c1)
        else Inr (emit (AsyncRead 0 HEADER_LENGTH To_parseHeader) c1))"

definition parseProxyIdentification ::
  "config \<Rightarrow> error_code option \<Rightarrow> env \<Rightarrow> Connection \<Rightarrow> fault + Connection" where
  "parseProxyIdentification cfg error e c0 =
     (let c = emit ReadTimerCancel c0 in
      if error \<noteq> None \<or> connectionState c = CONNECTION_STATE_CLOSED then
        Inr (close True e
          (if error \<noteq> Some operation_aborted \<and> error \<noteq> Some eof \<and> error \<noteq> Some connection_reset
           then emit (Log LogError) c else c))
      else
        let msgBuffer = buffer (msg c);
            serverName = SERVER_NAME cfg @ [0x0A]
        in if connectionState c = CONNECTION_STATE_IDENTIFYING then
             (if byteAt msgBuffer 1 = 0x00 \<or> strncasecmp msgBuffer serverName 2 \<noteq> 0
              then Inr (parseHeader cfg error e (c\<lparr>connectionState := CONNECTION_STATE_OPEN\<rparr>))
              else
                let remainder = size_t_minus (length serverName) 2 in
                if remainder > 0
                then Inr (try_arm_and_read e 0 remainder To_parseProxyIdentification
                            (c\<lparr>connectionState := CONNECTION_STATE_READINGS\<rparr>))
                else parseProxyIdentification_tail e
                       (c\<lparr>connectionState := CONNECTION_STATE_OPEN\<rparr>))
           else if connectionState c = CONNECTION_STATE_READINGS then
             (let remainder = size_t_minus (length serverName) 2 in
              if strncasecmp msgBuffer (drop 2 serverName) remainder = 0
              then parseProxyIdentification_tail e
                     (c\<lparr>connectionState := CONNECTION_STATE_OPEN\<rparr>)
              else Inr (close True e (emit (Log LogError) c)))
           else parseProxyIdentification_tail e c)"

text \<open>
  The end of \<open>parsePacket\<close>: re-arm the read timer and, unless the protocol asked to
  skip it, request the next header.
\<close>

definition parsePacket_tail :: "bool \<Rightarrow> env \<Rightarrow> Connection \<Rightarrow> Connection" where
  "parsePacket_tail skipReadingNextPacket e c =
     (case reactor e of
        TimerRaises \<Rightarrow> on_system_error e c
      | outcome \<Rightarrow>
          let c1 = emit ReadTimerArm c in
          if skipReadingNextPacket then c1
          else if outcome = RequestRaises then on_system_error e c1
          else emit (AsyncRead 0 HEADER_LENGTH To_parseHeader) c1)"

text \<open>
  \<open>parsePacket\<close>. \<open>len\<close> is an \<open>int32_t\<close> computed from the length and the cursor; the
  checksum is taken over the \<open>len\<close> bytes that follow the 4-byte checksum field.
\<close>

definition parsePacket :: "error_code option \<Rightarrow> env \<Rightarrow> Connection \<Rightarrow> fault + Connection" where
  "parsePacket error e c0 =
     (let c = emit ReadTimerCancel c0 in
      if error \<noteq> None \<or> connectionState c = CONNECTION_STATE_CLOSED then
        Inr (close True e (if error \<noteq> None then emit (Log LogError) c else c))
      else if \<not> receivedFirst c then
        (let c1 = c\<lparr>receivedFirst := True\<rparr> in
         case protocol c1 of
           None \<Rightarrow>
             let m = msg c1;
                 len = int (getLength m) - int (getBufferPosition m) - int CHECKSUM_LENGTH;
                 checksum =
                   (if len > 0
                    then adlerChecksum
                           (bytesAt (buffer m) (getBufferPosition m + CHECKSUM_LENGTH) (nat len))
                    else 0);
                 (recvChecksum, m1) = get_u32 m;
                 m2 = (if recvChecksum \<noteq> checksum
                       then skipBytes (- int CHECKSUM_LENGTH) m1 else m1);
                 (made, m3) = make_protocol (service_port c1) (recvChecksum = checksum) m2;
                 c2 = c1\<lparr>msg := m3, protocol := made\<rparr>
             in (case made of
                   None \<Rightarrow> Inr (close True e c2)
                 | Some p \<Rightarrow> Inr (parsePacket_tail False e (emit (OnRecvFirstMessage p m3) c2)))
         | Some p \<Rightarrow>
             let m1 = snd (get_u32 (msg c1));
                 m2 = skipBytes 1 m1;
                 c2 = c1\<lparr>msg := m2\<rparr>
             in Inr (parsePacket_tail False e (emit (OnRecvFirstMessage p m2) c2)))
      else
        (case protocol c of
           None \<Rightarrow> Inl NullProtocol
         | Some p \<Rightarrow>
             Inr (parsePacket_tail (onRecvMessage_result e) e (emit (OnRecvMessage p (msg c)) c))))"

definition resumeWork :: "env \<Rightarrow> Connection \<Rightarrow> Connection" where
  "resumeWork e c =
     (if reactor e = RequestRaises then on_system_error e c
      else emit (AsyncRead 0 HEADER_LENGTH To_parseHeader) c)"

definition send :: "OutputMessage \<Rightarrow> env \<Rightarrow> Connection \<Rightarrow> Connection" where
  "send outputMessage e c =
     (if connectionState c = CONNECTION_STATE_CLOSED then c
      else
        let noPendingWrite = (messageQueue c = []);
            c1 = c\<lparr>messageQueue := messageQueue c @ [outputMessage]\<rparr>
        in if noPendingWrite then
             (if socket_is_open c1 then
                (if reactor e = RequestRaises then on_system_error e c1
                 else emit Post_internalWorker c1)
              else close True e ((emit (Log LogError) c1)\<lparr>messageQueue := []\<rparr>))
           else c1)"

definition internalSend :: "OutputMessage \<Rightarrow> env \<Rightarrow> Connection \<Rightarrow> Connection" where
  "internalSend outputMessage e c =
     (case reactor e of
        TimerRaises \<Rightarrow> on_system_error e c
      | RequestRaises \<Rightarrow> on_system_error e (emit WriteTimerArm c)
      | NoRaise \<Rightarrow> emit (AsyncWrite outputMessage) (emit WriteTimerArm c))"

definition internalWorker :: "env \<Rightarrow> Connection \<Rightarrow> fault + Connection" where
  "internalWorker e c =
     (if messageQueue c = [] then
        Inr (if connectionState c = CONNECTION_STATE_CLOSED then closeSocket e c else c)
      else
        let outputMessage = hd (messageQueue c) in
        case protocol c of
          None \<Rightarrow> Inl NullProtocol
        | Some p \<Rightarrow> Inr (internalSend outputMessage e (emit (OnSendMessage p outputMessage) c)))"

definition onWriteOperation :: "error_code option \<Rightarrow> env \<Rightarrow> Connection \<Rightarrow> fault + Connection" where
  "onWriteOperation error e c0 =
     (let c = emit WriteTimerCancel c0 in
      if messageQueue c = [] then Inl EmptyQueue
      else
        let c1 = c\<lparr>messageQueue := tl (messageQueue c)\<rparr> in
        if error \<noteq> None then
          Inr (close True e ((emit (Log LogError) c1)\<lparr>messageQueue := []\<rparr>))
        else if messageQueue c1 \<noteq> [] then
          (let outputMessage = hd (messageQueue c1) in
           case protocol c1 of
             None \<Rightarrow> Inl NullProtocol
           | Some p \<Rightarrow> Inr (internalSend outputMessage e (emit (OnSendMessage p outputMessage) c1)))
        else if connectionState c1 = CONNECTION_STATE_CLOSED then Inr (closeSocket e c1)
        else Inr c1)"

text \<open>\<open>handleTimeout\<close>, for a connection that is still alive when the timer fires.\<close>

definition handleTimeout :: "error_code option \<Rightarrow> env \<Rightarrow> Connection \<Rightarrow> Connection" where
  "handleTimeout error e c =
     (if error = Some operation_aborted then c
      else close True e (emit (Log LogDebug) (snd (getIP e c))))"

text \<open>
  \<open>ServicePort::onAccept\<close> for the port and the connection whose accept completed.
  The connection that the following \<open>accept()\<close> creates is a new object, recorded in
  the port's trace.
\<close>

definition onAccept ::
  "config \<Rightarrow> error_code option \<Rightarrow> env \<Rightarrow> ServicePort \<times> Connection \<Rightarrow> ServicePort \<times> Connection" where
  "onAccept cfg error e pc =
     (case pc of (sp, connection) \<Rightarrow>
      (case error of
        None \<Rightarrow>
          if services sp = [] then (sp, connection)
          else
            let (remote_ip, conn1) = getIP e connection;
                conn2 =
                  (if remote_ip \<noteq> 0 \<and> ban_acceptConnection e remote_ip then
                     (let service = hd (services sp) in
                      if is_single_socket service
                      then accept_protocol (Service_make_protocol service) e conn1
                      else accept_plain e conn1)
                   else close True e conn1)
            in (accept_port sp, conn2)
      | Some err \<Rightarrow>
          if err \<noteq> operation_aborted then
            (if \<not> pendingStart sp then
               (let sp1 = close_port sp;
                    sp2 = sp1\<lparr>pendingStart := True\<rparr>
                in (sp2\<lparr>port_trace := port_trace sp2 @ [DeadlineTimerArm (CONNECTION_READ_TIMEOUT cfg)]\<rparr>,
                    connection))
             else (sp, connection))
          else (sp, connection)))"

section \<open>Sequences of operations on one connection\<close>

text \<open>
  The operations that can run on a connection after it has been accepted, each with the
  answers of the collaborators during that invocation. \<open>Op_received\<close> is the reactor
  storing received bytes: the buffer gets new contents.
\<close>

datatype operation =
    Op_close bool
  | Op_send OutputMessage
  | Op_parseProxyIdentification "error_code option"
  | Op_parseHeader "error_code option"
  | Op_parsePacket "error_code option"
  | Op_resumeWork
  | Op_getIP
  | Op_internalWorker
  | Op_onWriteOperation "error_code option"
  | Op_handleTimeout "error_code option"
  | Op_received "u8 list"

fun exec :: "config \<Rightarrow> env \<times> operation \<Rightarrow> Connection \<Rightarrow> fault + Connection" where
  "exec cfg (e, Op_close force) c = Inr (close force e c)"
| "exec cfg (e, Op_send outputMessage) c = Inr (send outputMessage e c)"
| "exec cfg (e, Op_parseProxyIdentification error) c = parseProxyIdentification cfg error e c"
| "exec cfg (e, Op_parseHeader error) c = Inr (parseHeader cfg error e c)"
| "exec cfg (e, Op_parsePacket error) c = parsePacket error e c"
| "exec cfg (e, Op_resumeWork) c = Inr (resumeWork e c)"
| "exec cfg (e, Op_getIP) c = Inr (snd (getIP e c))"
| "exec cfg (e, Op_internalWorker) c = internalWorker e c"
| "exec cfg (e, Op_onWriteOperation error) c = onWriteOperation error e c"
| "exec cfg (e, Op_handleTimeout error) c = Inr (handleTimeout error e c)"
| "exec cfg (e, Op_received bytes) c = Inr (c\<lparr>msg := (msg c)\<lparr>buffer := bytes\<rparr>\<rparr>)"

fun run :: "config \<Rightarrow> (env \<times> operation) list \<Rightarrow> Connection \<Rightarrow> fault + Connection" where
  "run cfg [] c = Inr c"
| "run cfg (x # xs) c = (case exec cfg x c of Inl f \<Rightarrow> Inl f | Inr c' \<Rightarrow> run cfg xs c')"

section \<open>Statements about service lists\<close>

text \<open>
  \<open>unmixed\<close>: the list is exactly one single-socket service, or holds non-single-socket
  services only. \<open>single_socket_only_last\<close>: no service but the last one is
  single-socket.
\<close>

definition unmixed :: "Service list \<Rightarrow> bool" where
  "unmixed svcs =
     ((length svcs = 1 \<and> is_single_socket (hd svcs)) \<or>
      list_all (\<lambda>s. is_single_socket s = False) svcs)"

definition single_socket_only_last :: "Service list \<Rightarrow> bool" where
  "single_socket_only_last svcs = list_all (\<lambda>s. is_single_socket s = False) (butlast svcs)"

text \<open>The calls that \<open>close\<close> and \<open>closeSocket\<close> can make.\<close>

fun close_event :: "event \<Rightarrow> bool" where
  "close_event ReleaseConnection = True"
| "close_event (AddEvent_release p) = True"
| "close_event ReadTimerCancel = True"
| "close_event WriteTimerCancel = True"
| "close_event SocketCancel = True"
| "close_event SocketShutdown = True"
| "close_event SocketClose = True"
| "close_event (Log LogError) = True"
| "close_event ev = False"




text \<open>
  A connection that is not CLOSED and has messages waiting in its outbound queue has an
  open socket. A connection with an empty queue, such as a new one, is in this condition,
  and every operation keeps it: the socket is closed by \<open>closeSocket\<close> only, which runs
  after the state CLOSED has been stored.
\<close>

definition queue_has_socket :: "Connection \<Rightarrow> bool" where
  "queue_has_socket c =
     (connectionState c = CONNECTION_STATE_CLOSED \<or> socket_is_open c \<or> messageQueue c = [])"

section \<open>Concrete inputs\<close>

definition svc_game :: Service where
  "svc_game = \<lparr>get_protocol_identifier = 0x00, is_checksummed = True,
                is_single_socket = True, get_protocol_name = ''gameworld''\<rparr>"

definition svc_login :: Service where
  "svc_login = \<lparr>get_protocol_identifier = 0x01, is_checksummed = True,
                 is_single_socket = False, get_protocol_name = ''login''\<rparr>"

definition svc_old_login :: Service where
  "svc_old_login = \<lparr>get_protocol_identifier = 0x01, is_checksummed = False,
                     is_single_socket = False, get_protocol_name = ''old login''\<rparr>"

definition svc_status :: Service where
  "svc_status = \<lparr>get_protocol_identifier = 0xFF, is_checksummed = False,
                  is_single_socket = False, get_protocol_name = ''status''\<rparr>"

definition port_empty :: ServicePort where
  "port_empty = \<lparr>services = [], acceptor = Some True, pendingStart = False,
                  serverPort = 7171, port_trace = []\<rparr>"

definition port_login :: ServicePort where
  "port_login = port_empty\<lparr>services := [svc_login, svc_old_login, svc_status]\<rparr>"

text \<open>
  A first packet as in scenario S1 of the spec: header \<open>05 00\<close>, then the checksum
  field \<open>02 00 02 00\<close> (Adler-32 of the single byte \<open>01\<close>), then the protocol
  identifier \<open>01\<close>; the cursor stands behind the header.
\<close>

definition msg_first :: NetworkMessage where
  "msg_first = \<lparr>buffer = [0x05, 0x00, 0x02, 0x00, 0x02, 0x00, 0x01],
                 info_length = 7, info_position = 2\<rparr>"

definition env_quiet :: env where
  "env_quiet = \<lparr>reactor = NoRaise, cancel_raises = False, shutdown_error = None,
                 close_error = None, time_first = 1000, time_second = 1000,
                 remote_endpoint = None, ban_acceptConnection = (\<lambda>a. True),
                 onRecvMessage_result = False\<rparr>"

definition conn_fresh :: Connection where
  "conn_fresh = \<lparr>connectionState = CONNECTION_STATE_OPEN, ip = 1, receivedFirst = False,
                  packetsSent = 0, timeConnected = 1000, protocol = None, msg = msg_first,
                  messageQueue = [], socket_is_open = True, service_port = port_login,
                  trace = []\<rparr>"

definition cfg_ot :: config where
  "cfg_ot = \<lparr>SERVER_NAME = [0x4F, 0x54], MAX_PACKETS_PER_SECOND = 25,
              INPUTMESSAGE_MAXSIZE = 65500, CONNECTION_READ_TIMEOUT = 30,
              CONNECTION_WRITE_TIMEOUT = 30\<rparr>"

text \<open>A message buffer into which a header announcing 5 body bytes has just been read.\<close>

definition msg_header :: NetworkMessage where
  "msg_header = \<lparr>buffer = [0x05, 0x00], info_length = 0, info_position = 0\<rparr>"

definition conn_closed :: Connection where
  "conn_closed = conn_fresh\<lparr>connectionState := CONNECTION_STATE_CLOSED\<rparr>"

text \<open>
  A connection that has completed 25 header reads within the current second and has a
  message waiting to be written; and one whose window started long ago.
\<close>

definition conn_flooding :: Connection where
  "conn_flooding = conn_fresh\<lparr>packetsSent := 25, msg := msg_header, messageQueue := [[0x01]]\<rparr>"

definition conn_stale :: Connection where
  "conn_stale = conn_fresh\<lparr>packetsSent := 7, timeConnected := 990, msg := msg_header\<rparr>"

text \<open>
  A first packet without a checksum: behind the header the protocol identifier \<open>FF\<close>
  follows at once.
\<close>

definition msg_plain :: NetworkMessage where
  "msg_plain = \<lparr>buffer = [0x05, 0x00, 0xFF, 0x01, 0x02, 0x03, 0x04],
                 info_length = 7, info_position = 2\<rparr>"

text \<open>
  Connections of a single-socket port in the proxy-identification prelude, with the
  server name \<open>OT\<close>: after the first two bytes \<open>ot\<close> have been read; after the
  remaining byte (a line feed) has been read into the start of the buffer; after a wrong
  remaining byte has been read; and after two bytes that are a packet header.
\<close>

definition conn_ident :: Connection where
  "conn_ident = conn_fresh\<lparr>connectionState := CONNECTION_STATE_IDENTIFYING,
                             protocol := Some (Protocol_of svc_game),
                             msg := \<lparr>buffer = [0x6F, 0x74], info_length = 0, info_position = 0\<rparr>\<rparr>"

definition conn_reading :: Connection where
  "conn_reading = conn_ident\<lparr>connectionState := CONNECTION_STATE_READINGS,
                              msg := msg_header\<lparr>buffer := [0x0A, 0x74]\<rparr>\<rparr>"

definition conn_reading_wrong :: Connection where
  "conn_reading_wrong = conn_reading\<lparr>msg := msg_header\<lparr>buffer := [0x58, 0x74]\<rparr>\<rparr>"

definition conn_ident_header :: Connection where
  "conn_ident_header = conn_ident\<lparr>msg := msg_header\<rparr>"

text \<open>
  Scenario S5 of the spec: a connection with a bound protocol and one message queued,
  and the same connection after \<open>close(force = false)\<close>.
\<close>

definition conn_draining :: Connection where
  "conn_draining = conn_fresh\<lparr>protocol := Some (Protocol_of svc_login), receivedFirst := True,
                                messageQueue := [[0x01]]\<rparr>"

definition conn_drained :: Connection where
  "conn_drained = close False env_quiet conn_draining"

text \<open>
  An environment in which the endpoint query answers 127.0.0.1, and a port that hosts
  the single-socket game service.
\<close>

definition env_peer :: env where
  "env_peer = env_quiet\<lparr>remote_endpoint := Some 0x0100007F\<rparr>"

definition port_game :: ServicePort where
  "port_game = port_empty\<lparr>services := [svc_game]\<rparr>"

section \<open>Frame lemmas\<close>

lemma emit_fields:
  "connectionState (emit ev c) = connectionState c"
  "ip (emit ev c) = ip c"
  "receivedFirst (emit ev c) = receivedFirst c"
  "packetsSent (emit ev c) = packetsSent c"
  "timeConnected (emit ev c) = timeConnected c"
  "protocol (emit ev c) = protocol c"
  "msg (emit ev c) = msg c"
  "messageQueue (emit ev c) = messageQueue c"
  "socket_is_open (emit ev c) = socket_is_open c"
  "service_port (emit ev c) = service_port c"
  "trace (emit ev c) = trace c @ [ev]"
  by (simp_all add: emit_def)

lemma closeSocket_fields:
  "connectionState (closeSocket e c) = connectionState c"
  "ip (closeSocket e c) = ip c"
  "receivedFirst (closeSocket e c) = receivedFirst c"
  "packetsSent (closeSocket e c) = packetsSent c"
  "timeConnected (closeSocket e c) = timeConnected c"
  "protocol (closeSocket e c) = protocol c"
  "msg (closeSocket e c) = msg c"
  "messageQueue (closeSocket e c) = messageQueue c"
  "service_port (closeSocket e c) = service_port c"
  by (simp_all add: closeSocket_def Let_def emit_fields)

lemma close_fields:
  "connectionState (close force e c) = CONNECTION_STATE_CLOSED"
  "ip (close force e c) = 0"
  "receivedFirst (close force e c) = receivedFirst c"
  "packetsSent (close force e c) = packetsSent c"
  "timeConnected (close force e c) = timeConnected c"
  "protocol (close force e c) = protocol c"
  "msg (close force e c) = msg c"
  "messageQueue (close force e c) = messageQueue c"
  "service_port (close force e c) = service_port c"
  by (simp_all add: close_def Let_def emit_fields closeSocket_fields split: option.splits)

section \<open>Properties of the service port\<close>

lemma make_protocol_loop_find:
  "make_protocol_loop checksummed protocolID svcs =
     map_option Service_make_protocol
       (find (\<lambda>s. get_protocol_identifier s = protocolID \<and>
                   (is_checksummed s = False \<or> is_checksummed s = checksummed)) svcs)"
  by (induction svcs) auto

text \<open>
  C9. \<open>ServicePort::make_protocol\<close> reads one byte of the message as the protocol
  identifier (the cursor advances by one) and returns the protocol made by the first
  service, in list order, whose identifier equals that byte and whose checksummed flag is
  false or equal to the \<open>checksummed\<close> parameter; when no service satisfies both
  conditions it returns the null reference (\<open>None\<close>).
\<close>

theorem make_protocol_first_match:
  "make_protocol sp checksummed m =
     (map_option Service_make_protocol
        (find (\<lambda>s. get_protocol_identifier s = byteAt (buffer m) (info_position m) \<and>
                    (is_checksummed s = False \<or> is_checksummed s = checksummed))
           (services sp)),
      m\<lparr>info_position := info_position m + 1\<rparr>)"
  by (simp add: make_protocol_def getByte_def make_protocol_loop_find)

theorem make_protocol_first_match_witness:
  "fst (make_protocol port_login False (msg_first\<lparr>info_position := 6\<rparr>))
     = Some (Protocol_of svc_old_login) \<and>
   fst (make_protocol port_login True (msg_first\<lparr>info_position := 6\<rparr>))
     = Some (Protocol_of svc_login) \<and>
   fst (make_protocol port_login True (msg_first\<lparr>info_position := 2\<rparr>)) = None"
  using make_protocol_first_match [of port_login False "msg_first\<lparr>info_position := 6\<rparr>"]
        make_protocol_first_match [of port_login True "msg_first\<lparr>info_position := 6\<rparr>"]
        make_protocol_first_match [of port_login True "msg_first\<lparr>info_position := 2\<rparr>"]
  by (simp add: port_login_def port_empty_def msg_first_def svc_login_def svc_old_login_def
                svc_status_def byteAt_def Service_make_protocol_def)

lemma add_service_keeps_only_last:
  "single_socket_only_last (services sp) \<Longrightarrow>
   single_socket_only_last (services (snd (add_service new_svc sp)))"
  by (auto simp: add_service_def single_socket_only_last_def list_ex_iff list_all_iff butlast_append
           dest: in_set_butlastD)

lemma add_services_keeps_only_last:
  "single_socket_only_last (services sp) \<Longrightarrow>
   single_socket_only_last (services (add_services news sp))"
  by (induction news arbitrary: sp) (auto intro: add_service_keeps_only_last)

text \<open>
  C6, as stated, fails: \<open>add_service\<close> only looks at the services already on the port.
  On a port that hosts the non-single-socket status service, adding the single-socket
  game service is accepted, and the port then mixes the two.
\<close>

theorem add_service_mixes_counterexample:
  "fst (add_service svc_game (snd (add_service svc_status port_empty))) = True \<and>
   services (add_services [svc_status, svc_game] port_empty) = [svc_status, svc_game] \<and>
   is_single_socket svc_game \<and>
   \<not> unmixed (services (add_services [svc_status, svc_game] port_empty))"
  by (simp add: add_service_def port_empty_def svc_status_def svc_game_def unmixed_def)

text \<open>
  C6, amended. \<open>add_service\<close> returns false, leaving the port unchanged, exactly when a
  service already on the port is single-socket, and appends the new service otherwise.
  Hence nothing is ever added behind a single-socket service: if no service but the last
  is single-socket before a sequence of \<open>add_service\<close> calls, the same holds after it;
  in particular it holds for every sequence of calls on a port that starts empty.
\<close>

theorem add_service_guard:
  "fst (add_service new_svc sp) = (\<not> list_ex is_single_socket (services sp)) \<and>
   (list_ex is_single_socket (services sp) \<longrightarrow> snd (add_service new_svc sp) = sp) \<and>
   (\<not> list_ex is_single_socket (services sp) \<longrightarrow>
      snd (add_service new_svc sp) = sp\<lparr>services := services sp @ [new_svc]\<rparr>) \<and>
   (single_socket_only_last (services sp) \<longrightarrow>
      single_socket_only_last (services (add_services news sp))) \<and>
   (services sp = [] \<longrightarrow> single_socket_only_last (services (add_services news sp)))"
proof -
  have empty: "services sp = [] \<Longrightarrow> single_socket_only_last (services sp)"
    by (simp add: single_socket_only_last_def)
  show ?thesis
    using add_services_keeps_only_last [of sp news] empty
    by (auto simp: add_service_def)
qed

theorem add_service_guard_witness:
  "fst (add_service svc_login (port_empty\<lparr>services := [svc_game]\<rparr>)) = False \<and>
   snd (add_service svc_login (port_empty\<lparr>services := [svc_game]\<rparr>))
     = port_empty\<lparr>services := [svc_game]\<rparr> \<and>
   snd (add_service svc_login (port_empty\<lparr>services := [svc_status]\<rparr>))
     = port_empty\<lparr>services := [svc_status, svc_login]\<rparr> \<and>
   single_socket_only_last (services (add_services [svc_status, svc_game, svc_login] port_empty))"
  using add_service_guard [of svc_login "port_empty\<lparr>services := [svc_game]\<rparr>" "[]"]
        add_service_guard [of svc_login "port_empty\<lparr>services := [svc_status]\<rparr>" "[]"]
        add_service_guard [of svc_login port_empty "[svc_status, svc_game, svc_login]"]
  by (simp add: port_empty_def svc_game_def svc_status_def)

section \<open>The cached address\<close>

lemma closeSocket_count:
  "\<not> close_event ev \<Longrightarrow> count_list (trace (closeSocket e c)) ev = count_list (trace c) ev"
  by (cases ev) (auto simp: closeSocket_def Let_def emit_fields)

lemma close_count:
  "\<not> close_event ev \<Longrightarrow> count_list (trace (close force e c)) ev = count_list (trace c) ev"
  by (cases ev) (auto simp: close_def Let_def emit_fields closeSocket_count split: option.splits)

lemma on_system_error_count:
  "\<not> close_event ev \<Longrightarrow> count_list (trace (on_system_error e c)) ev = count_list (trace c) ev"
  by (cases ev) (auto simp: on_system_error_def close_count emit_fields)

lemma getIP_resolved: "ip c \<noteq> 1 \<Longrightarrow> getIP e c = (ip c, c)"
  by (simp add: getIP_def)

lemma getIP_ip0: "ip c = 0 \<Longrightarrow> ip (snd (getIP e c)) = 0"
  by (simp add: getIP_def)

lemma getIP_query_count:
  "count_list (trace (snd (getIP e c))) RemoteEndpointQuery =
     count_list (trace c) RemoteEndpointQuery + (if ip c = 1 then 1 else 0)"
  by (simp add: getIP_def emit_fields split: option.splits)

lemma on_system_error_ip: "ip (on_system_error e c) = 0"
  by (simp add: on_system_error_def close_fields)

lemma try_arm_and_read_ip0: "ip c = 0 \<Longrightarrow> ip (try_arm_and_read e off n cb c) = 0"
  by (simp add: try_arm_and_read_def on_system_error_ip emit_fields split: try_outcome.splits)

lemma parseProxyIdentification_tail_ip0:
  "ip c = 0 \<Longrightarrow> parseProxyIdentification_tail e c = Inr c' \<Longrightarrow> ip c' = 0"
  by (auto simp: parseProxyIdentification_tail_def Let_def on_system_error_ip emit_fields
           split: if_splits)

lemma parsePacket_tail_ip0: "ip c = 0 \<Longrightarrow> ip (parsePacket_tail skip e c) = 0"
  by (simp add: parsePacket_tail_def Let_def on_system_error_ip emit_fields split: try_outcome.splits)

lemma parseHeader_ip0: "ip c = 0 \<Longrightarrow> ip (parseHeader cfg error e c) = 0"
  by (simp add: parseHeader_def Let_def getBodyBuffer_def on_system_error_ip emit_fields close_fields
           split: option.splits try_outcome.splits)

lemma parseProxyIdentification_ip0:
  "ip c = 0 \<Longrightarrow> parseProxyIdentification cfg error e c = Inr c' \<Longrightarrow> ip c' = 0"
  unfolding parseProxyIdentification_def Let_def
  by (auto simp: parseHeader_ip0 try_arm_and_read_ip0 emit_fields close_fields
           split: if_splits
           dest: parseProxyIdentification_tail_ip0 [rotated])

lemma parsePacket_ip0: "ip c = 0 \<Longrightarrow> parsePacket error e c = Inr c' \<Longrightarrow> ip c' = 0"
  by (auto simp: parsePacket_def Let_def parsePacket_tail_ip0 emit_fields close_fields
           split: option.splits if_splits prod.splits)

lemma send_ip0: "ip c = 0 \<Longrightarrow> ip (send m e c) = 0"
  by (simp add: send_def Let_def on_system_error_ip emit_fields close_fields)

lemma internalSend_ip0: "ip c = 0 \<Longrightarrow> ip (internalSend m e c) = 0"
  by (simp add: internalSend_def on_system_error_ip emit_fields split: try_outcome.splits)

lemma internalWorker_ip0: "ip c = 0 \<Longrightarrow> internalWorker e c = Inr c' \<Longrightarrow> ip c' = 0"
  by (auto simp: internalWorker_def Let_def internalSend_ip0 emit_fields closeSocket_fields
           split: option.splits if_splits)

lemma onWriteOperation_ip0: "ip c = 0 \<Longrightarrow> onWriteOperation error e c = Inr c' \<Longrightarrow> ip c' = 0"
  by (auto simp: onWriteOperation_def Let_def internalSend_ip0 emit_fields closeSocket_fields close_fields
           split: option.splits if_splits)

lemma exec_ip0: "ip c = 0 \<Longrightarrow> exec cfg x c = Inr c' \<Longrightarrow> ip c' = 0"
proof (cases x)
  case (Pair e op)
  assume z: "ip c = 0" and r: "exec cfg x c = Inr c'"
  show ?thesis
  proof (cases op)
    case (Op_parsePacket error)
    with Pair z r show ?thesis by (auto dest: parsePacket_ip0)
  next
    case Op_internalWorker
    with Pair z r show ?thesis by (auto dest: internalWorker_ip0)
  next
    case (Op_onWriteOperation error)
    with Pair z r show ?thesis by (auto dest: onWriteOperation_ip0)
  next
    case (Op_parseProxyIdentification error)
    with Pair z r show ?thesis by (auto dest: parseProxyIdentification_ip0)
  qed (use Pair z r in \<open>auto simp: close_fields send_ip0 parseHeader_ip0
        getIP_ip0 resumeWork_def on_system_error_ip emit_fields handleTimeout_def\<close>)
qed

lemma run_ip0: "ip c = 0 \<Longrightarrow> run cfg ops c = Inr c' \<Longrightarrow> ip c' = 0"
proof (induction ops arbitrary: c)
  case Nil
  then show ?case by simp
next
  case (Cons x xs)
  then show ?case by (auto split: sum.splits dest: exec_ip0)
qed

text \<open>
  C10. \<open>getIP\<close> queries the remote endpoint only when the stored \<open>ip\<close> is the sentinel 1:
  with any other stored value it returns that value and leaves the connection untouched,
  and the number of endpoint queries grows by one exactly when \<open>ip\<close> is 1. A failed query
  stores 0, and \<open>close\<close> stores 0 whatever the state of the connection is. Once 0 is
  stored, it is still stored after every sequence of operations on the connection that
  returns, and every later \<open>getIP\<close> returns 0 without a query, whatever the endpoint
  would answer. \<open>accept\<close> does not touch a stored 0 either.
\<close>

theorem getIP_zero_is_permanent:
  "(ip c \<noteq> 1 \<longrightarrow> getIP e c = (ip c, c)) \<and>
   count_list (trace (snd (getIP e c))) RemoteEndpointQuery =
     count_list (trace c) RemoteEndpointQuery + (if ip c = 1 then 1 else 0) \<and>
   (ip c = 1 \<and> remote_endpoint e = None \<longrightarrow>
      fst (getIP e c) = 0 \<and> ip (snd (getIP e c)) = 0) \<and>
   ip (close force e c) = 0 \<and>
   (ip c = 0 \<and> run cfg ops c = Inr c' \<longrightarrow> ip c' = 0 \<and> getIP e' c' = (0, c')) \<and>
   (ip c = 0 \<longrightarrow> ip (accept_protocol p e c) = 0 \<and> ip (accept_plain e c) = 0)"
proof -
  have later: "ip c = 0 \<Longrightarrow> run cfg ops c = Inr c' \<Longrightarrow> ip c' = 0 \<and> getIP e' c' = (0, c')"
  proof -
    assume "ip c = 0" and "run cfg ops c = Inr c'"
    then have "ip c' = 0" by (rule run_ip0)
    then show ?thesis by (simp add: getIP_resolved)
  qed
  have acc: "ip c = 0 \<Longrightarrow> ip (accept_protocol p e c) = 0 \<and> ip (accept_plain e c) = 0"
    by (simp add: accept_protocol_def accept_plain_def try_arm_and_read_ip0 emit_fields)
  have err: "ip c = 1 \<Longrightarrow> remote_endpoint e = None \<Longrightarrow>
      fst (getIP e c) = 0 \<and> ip (snd (getIP e c)) = 0"
    by (simp add: getIP_def)
  show ?thesis
    using later acc err by (simp add: getIP_resolved getIP_query_count close_fields)
qed

theorem getIP_zero_is_permanent_witness:
  "fst (getIP env_quiet conn_fresh) = 0 \<and>
   getIP (env_quiet\<lparr>remote_endpoint := Some 0x0100007F\<rparr>)
      (close True env_quiet (snd (getIP env_quiet conn_fresh)))
     = (0, close True env_quiet (snd (getIP env_quiet conn_fresh))) \<and>
   getIP env_quiet (conn_fresh\<lparr>ip := 0x0100007F\<rparr>) = (0x0100007F, conn_fresh\<lparr>ip := 0x0100007F\<rparr>)"
  using getIP_zero_is_permanent [of conn_fresh env_quiet]
        getIP_zero_is_permanent [of "snd (getIP env_quiet conn_fresh)" env_quiet True cfg_ot
           "[(env_quiet\<lparr>remote_endpoint := Some 0x0100007F\<rparr>, Op_getIP), (env_quiet, Op_close True)]"
           "close True env_quiet (snd (getIP env_quiet conn_fresh))"
           "env_quiet\<lparr>remote_endpoint := Some 0x0100007F\<rparr>"]
        getIP_zero_is_permanent [of "conn_fresh\<lparr>ip := 0x0100007F\<rparr>" env_quiet]
  by (simp add: conn_fresh_def env_quiet_def getIP_def emit_def)

section \<open>Sending\<close>

lemma on_system_error_has_socket: "queue_has_socket (on_system_error e c)"
  by (simp add: queue_has_socket_def on_system_error_def close_fields)

lemma close_has_socket: "queue_has_socket (close force e c)"
  by (simp add: queue_has_socket_def close_fields)

lemma emit_has_socket: "queue_has_socket (emit ev c) = queue_has_socket c"
  by (simp add: queue_has_socket_def emit_fields)

lemma closeSocket_has_socket:
  "connectionState c = CONNECTION_STATE_CLOSED \<Longrightarrow> queue_has_socket (closeSocket e c)"
  by (simp add: queue_has_socket_def closeSocket_fields)

lemma upd_has_socket:
  "queue_has_socket (c\<lparr>ip := a\<rparr>) = queue_has_socket c"
  "queue_has_socket (c\<lparr>receivedFirst := b\<rparr>) = queue_has_socket c"
  "queue_has_socket (c\<lparr>packetsSent := n\<rparr>) = queue_has_socket c"
  "queue_has_socket (c\<lparr>timeConnected := t\<rparr>) = queue_has_socket c"
  "queue_has_socket (c\<lparr>protocol := p\<rparr>) = queue_has_socket c"
  "queue_has_socket (c\<lparr>msg := m\<rparr>) = queue_has_socket c"
  "queue_has_socket (c\<lparr>trace := tr\<rparr>) = queue_has_socket c"
  by (simp_all add: queue_has_socket_def)

lemma getIP_has_socket: "queue_has_socket (snd (getIP e c)) = queue_has_socket c"
  by (simp add: getIP_def emit_has_socket upd_has_socket split: option.splits)

lemma try_arm_and_read_has_socket:
  "queue_has_socket c \<Longrightarrow> queue_has_socket (try_arm_and_read e off n cb c)"
  by (simp add: try_arm_and_read_def on_system_error_has_socket emit_has_socket
           split: try_outcome.splits)

lemma append_has_socket:
  "queue_has_socket c \<Longrightarrow> messageQueue c = [] \<longrightarrow> socket_is_open c \<Longrightarrow>
   queue_has_socket (c\<lparr>messageQueue := q\<rparr>)"
  by (auto simp: queue_has_socket_def)

lemma send_has_socket: "queue_has_socket c \<Longrightarrow> queue_has_socket (send m e c)"
  by (simp add: send_def Let_def on_system_error_has_socket close_has_socket emit_has_socket
                append_has_socket)

lemma parseHeader_has_socket: "queue_has_socket c \<Longrightarrow> queue_has_socket (parseHeader cfg error e c)"
  by (simp add: parseHeader_def Let_def getBodyBuffer_def on_system_error_has_socket
                close_has_socket emit_has_socket upd_has_socket
           split: option.splits try_outcome.splits)

lemma parseProxyIdentification_tail_has_socket:
  "queue_has_socket c \<Longrightarrow> parseProxyIdentification_tail e c = Inr c' \<Longrightarrow> queue_has_socket c'"
  by (auto simp: parseProxyIdentification_tail_def Let_def on_system_error_has_socket
                 emit_has_socket split: if_splits)

lemma state_has_socket:
  "queue_has_socket c \<Longrightarrow> connectionState c \<noteq> CONNECTION_STATE_CLOSED \<Longrightarrow>
   queue_has_socket (c\<lparr>connectionState := s\<rparr>)"
  by (auto simp: queue_has_socket_def)

lemma parseProxyIdentification_has_socket:
  assumes "queue_has_socket c" and "parseProxyIdentification cfg error e c = Inr c'"
  shows "queue_has_socket c'"
proof (cases "error \<noteq> None \<or> connectionState c = CONNECTION_STATE_CLOSED")
  case True
  with assms(2) show ?thesis
    by (auto simp: parseProxyIdentification_def Let_def emit_fields close_has_socket)
next
  case False
  define c1 where "c1 = emit ReadTimerCancel c"
  have k1: "queue_has_socket c1" and n1: "connectionState c1 \<noteq> CONNECTION_STATE_CLOSED"
    using assms(1) False by (simp_all add: c1_def emit_has_socket emit_fields)
  have ks: "queue_has_socket (c1\<lparr>connectionState := s\<rparr>)" for s
    using k1 n1 by (rule state_has_socket)
  from assms(2) False show ?thesis
    unfolding parseProxyIdentification_def Let_def c1_def [symmetric]
    by (auto simp: emit_fields close_has_socket parseHeader_has_socket ks k1
                   try_arm_and_read_has_socket
             split: if_splits
             dest: parseProxyIdentification_tail_has_socket [rotated])
qed

lemma parsePacket_tail_has_socket:
  "queue_has_socket c \<Longrightarrow> queue_has_socket (parsePacket_tail skip e c)"
  by (simp add: parsePacket_tail_def Let_def on_system_error_has_socket emit_has_socket
           split: try_outcome.splits)

lemma parsePacket_has_socket:
  "queue_has_socket c \<Longrightarrow> parsePacket error e c = Inr c' \<Longrightarrow> queue_has_socket c'"
  by (auto simp: parsePacket_def Let_def close_has_socket emit_has_socket upd_has_socket
                 parsePacket_tail_has_socket
           split: option.splits if_splits prod.splits)

lemma internalSend_has_socket:
  "queue_has_socket c \<Longrightarrow> queue_has_socket (internalSend m e c)"
  by (simp add: internalSend_def on_system_error_has_socket emit_has_socket
           split: try_outcome.splits)

lemma internalWorker_has_socket:
  "queue_has_socket c \<Longrightarrow> internalWorker e c = Inr c' \<Longrightarrow> queue_has_socket c'"
  by (auto simp: internalWorker_def Let_def internalSend_has_socket emit_has_socket
                 closeSocket_has_socket
           split: option.splits if_splits)

lemma tl_has_socket:
  "queue_has_socket c \<Longrightarrow> queue_has_socket (c\<lparr>messageQueue := tl (messageQueue c)\<rparr>)"
  by (auto simp: queue_has_socket_def)

lemma onWriteOperation_has_socket:
  assumes "queue_has_socket c" and "onWriteOperation error e c = Inr c'"
  shows "queue_has_socket c'"
proof -
  define c1 where "c1 = emit WriteTimerCancel c"
  have k1: "queue_has_socket (c1\<lparr>messageQueue := tl (messageQueue c1)\<rparr>)"
    using assms(1) by (simp add: c1_def emit_has_socket tl_has_socket)
  from assms(2) show ?thesis
    unfolding onWriteOperation_def Let_def c1_def [symmetric]
    using k1
    by (auto simp: internalSend_has_socket emit_has_socket close_has_socket
                   closeSocket_has_socket
             split: option.splits if_splits)
qed

lemma exec_has_socket:
  "queue_has_socket c \<Longrightarrow> exec cfg x c = Inr c' \<Longrightarrow> queue_has_socket c'"
proof (cases x)
  case (Pair e op)
  assume k: "queue_has_socket c" and r: "exec cfg x c = Inr c'"
  show ?thesis
  proof (cases op)
    case (Op_parsePacket error)
    with Pair k r show ?thesis by (auto dest: parsePacket_has_socket)
  next
    case Op_internalWorker
    with Pair k r show ?thesis by (auto dest: internalWorker_has_socket)
  next
    case (Op_onWriteOperation error)
    with Pair k r show ?thesis by (auto dest: onWriteOperation_has_socket)
  next
    case (Op_parseProxyIdentification error)
    with Pair k r show ?thesis by (auto dest: parseProxyIdentification_has_socket)
  next
    case (Op_received bytes)
    with Pair k r show ?thesis by (auto simp: upd_has_socket)
  qed (use Pair k r in \<open>auto simp: close_has_socket send_has_socket parseHeader_has_socket
        getIP_has_socket resumeWork_def on_system_error_has_socket emit_has_socket
        handleTimeout_def\<close>)
qed

lemma run_has_socket:
  "queue_has_socket c \<Longrightarrow> run cfg ops c = Inr c' \<Longrightarrow> queue_has_socket c'"
proof (induction ops arbitrary: c)
  case Nil
  then show ?case by simp
next
  case (Cons x xs)
  then show ?case by (auto split: sum.splits dest: exec_has_socket)
qed

lemma empty_has_socket: "messageQueue c = [] \<Longrightarrow> queue_has_socket c"
  by (simp add: queue_has_socket_def)

lemma accept_has_socket:
  "messageQueue c = [] \<Longrightarrow> queue_has_socket (accept_protocol p e c)"
  "messageQueue c = [] \<Longrightarrow> queue_has_socket (accept_plain e c)"
  by (simp_all add: accept_protocol_def accept_plain_def try_arm_and_read_has_socket
                    emit_has_socket empty_has_socket)


lemma send_post_count:
  "count_list (trace (send m e c)) Post_internalWorker =
     count_list (trace c) Post_internalWorker +
       (if connectionState c \<noteq> CONNECTION_STATE_CLOSED \<and> messageQueue c = [] \<and>
           socket_is_open c \<and> reactor e \<noteq> RequestRaises then 1 else 0)"
  by (simp add: send_def Let_def on_system_error_count close_count emit_fields)

text \<open>
  C7. The connections that executions reach satisfy \<open>queue_has_socket\<close>: it holds for a
  connection with an empty queue (a new connection), it holds after \<open>accept\<close>, and every
  sequence of operations keeps it, \<open>send\<close> included. On such a connection: if the state
  is CLOSED, \<open>send\<close> returns without any change (this needs no condition). Otherwise
  \<^item> if the socket is open, the message is appended to the outbound queue, and
    \<open>internalWorker\<close> is posted exactly when the queue was empty before the append;
    should the posting call raise, the connection is force-closed instead;
  \<^item> if the socket is not open, the queue is cleared and the connection is force-closed.
  So \<open>internalWorker\<close> is posted exactly when the connection is not CLOSED, the queue was
  empty before the append, the socket is open and the posting call does not raise.
\<close>

theorem send_spec:
  "(messageQueue c0 = [] \<longrightarrow>
      queue_has_socket c0 \<and> queue_has_socket (accept_protocol p e0 c0) \<and>
      queue_has_socket (accept_plain e0 c0)) \<and>
   (queue_has_socket c \<and> run cfg ops c = Inr c' \<longrightarrow> queue_has_socket c') \<and>
   (queue_has_socket c \<longrightarrow> queue_has_socket (send m e c)) \<and>
   (connectionState c = CONNECTION_STATE_CLOSED \<longrightarrow> send m e c = c) \<and>
   (queue_has_socket c \<and> connectionState c \<noteq> CONNECTION_STATE_CLOSED \<and> socket_is_open c \<longrightarrow>
      messageQueue (send m e c) = messageQueue c @ [m]) \<and>
   (queue_has_socket c \<and> connectionState c \<noteq> CONNECTION_STATE_CLOSED \<and> \<not> socket_is_open c \<longrightarrow>
      send m e c = close True e ((emit (Log LogError) c)\<lparr>messageQueue := []\<rparr>) \<and>
      messageQueue (send m e c) = [] \<and>
      connectionState (send m e c) = CONNECTION_STATE_CLOSED \<and>
      \<not> socket_is_open (send m e c)) \<and>
   (connectionState c \<noteq> CONNECTION_STATE_CLOSED \<and> socket_is_open c \<and>
    reactor e \<noteq> RequestRaises \<longrightarrow>
      send m e c =
        (if messageQueue c = [] then emit Post_internalWorker (c\<lparr>messageQueue := [m]\<rparr>)
         else c\<lparr>messageQueue := messageQueue c @ [m]\<rparr>)) \<and>
   (connectionState c \<noteq> CONNECTION_STATE_CLOSED \<and> socket_is_open c \<and>
    reactor e = RequestRaises \<longrightarrow>
      send m e c =
        (if messageQueue c = [] then close True e (emit (Log LogError) (c\<lparr>messageQueue := [m]\<rparr>))
         else c\<lparr>messageQueue := messageQueue c @ [m]\<rparr>)) \<and>
   count_list (trace (send m e c)) Post_internalWorker =
     count_list (trace c) Post_internalWorker +
       (if connectionState c \<noteq> CONNECTION_STATE_CLOSED \<and> messageQueue c = [] \<and>
           socket_is_open c \<and> reactor e \<noteq> RequestRaises then 1 else 0)"
proof -
  have A: "messageQueue c0 = [] \<longrightarrow>
      queue_has_socket c0 \<and> queue_has_socket (accept_protocol p e0 c0) \<and>
      queue_has_socket (accept_plain e0 c0)"
    by (simp add: empty_has_socket accept_has_socket)
  have B: "queue_has_socket c \<and> run cfg ops c = Inr c' \<longrightarrow> queue_has_socket c'"
    by (auto dest: run_has_socket)
  have C: "queue_has_socket c \<longrightarrow> queue_has_socket (send m e c)"
    by (simp add: send_has_socket)
  have D: "connectionState c = CONNECTION_STATE_CLOSED \<longrightarrow> send m e c = c"
    by (simp add: send_def)
  have E: "queue_has_socket c \<and> connectionState c \<noteq> CONNECTION_STATE_CLOSED \<and> socket_is_open c \<longrightarrow>
      messageQueue (send m e c) = messageQueue c @ [m]"
    by (simp add: send_def Let_def on_system_error_def close_fields emit_fields)
  have F: "queue_has_socket c \<and> connectionState c \<noteq> CONNECTION_STATE_CLOSED \<and> \<not> socket_is_open c \<longrightarrow>
      send m e c = close True e ((emit (Log LogError) c)\<lparr>messageQueue := []\<rparr>) \<and>
      messageQueue (send m e c) = [] \<and>
      connectionState (send m e c) = CONNECTION_STATE_CLOSED \<and>
      \<not> socket_is_open (send m e c)"
  proof (intro impI)
    assume h: "queue_has_socket c \<and> connectionState c \<noteq> CONNECTION_STATE_CLOSED \<and> \<not> socket_is_open c"
    then have q: "messageQueue c = []" by (auto simp: queue_has_socket_def)
    have s: "send m e c = close True e ((emit (Log LogError) c)\<lparr>messageQueue := []\<rparr>)"
      using h q by (simp add: send_def Let_def emit_def)
    have o: "\<not> socket_is_open (close True e ((emit (Log LogError) c)\<lparr>messageQueue := []\<rparr>))"
      using h by (simp add: close_def Let_def closeSocket_def emit_fields split: option.splits)
    show "send m e c = close True e ((emit (Log LogError) c)\<lparr>messageQueue := []\<rparr>) \<and>
      messageQueue (send m e c) = [] \<and>
      connectionState (send m e c) = CONNECTION_STATE_CLOSED \<and>
      \<not> socket_is_open (send m e c)"
      using o unfolding s by (simp add: close_fields)
  qed
  have G: "connectionState c \<noteq> CONNECTION_STATE_CLOSED \<and> socket_is_open c \<and>
    reactor e \<noteq> RequestRaises \<longrightarrow>
      send m e c =
        (if messageQueue c = [] then emit Post_internalWorker (c\<lparr>messageQueue := [m]\<rparr>)
         else c\<lparr>messageQueue := messageQueue c @ [m]\<rparr>)"
    by (simp add: send_def Let_def)
  have H: "connectionState c \<noteq> CONNECTION_STATE_CLOSED \<and> socket_is_open c \<and>
    reactor e = RequestRaises \<longrightarrow>
      send m e c =
        (if messageQueue c = [] then close True e (emit (Log LogError) (c\<lparr>messageQueue := [m]\<rparr>))
         else c\<lparr>messageQueue := messageQueue c @ [m]\<rparr>)"
    by (simp add: send_def Let_def on_system_error_def)
  note I = send_post_count [of m e c]
  show ?thesis
    by (intro conjI) (rule A, rule B, rule C, rule D, rule E, rule F, rule G, rule H, rule I)
qed

theorem send_spec_witness:
  "queue_has_socket conn_fresh \<and>
   queue_has_socket (accept_plain env_quiet conn_fresh) \<and>
   queue_has_socket (send [0x02] env_quiet (send [0x01] env_quiet conn_fresh)) \<and>
   send [0x02] env_quiet conn_closed = conn_closed \<and>
   messageQueue (send [0x02] env_quiet (send [0x01] env_quiet conn_fresh)) = [[0x01], [0x02]] \<and>
   send [0x02] env_quiet conn_fresh
     = conn_fresh\<lparr>messageQueue := [[0x02]], trace := [Post_internalWorker]\<rparr> \<and>
   messageQueue (send [0x02] env_quiet (conn_fresh\<lparr>socket_is_open := False\<rparr>)) = [] \<and>
   connectionState (send [0x02] env_quiet (conn_fresh\<lparr>socket_is_open := False\<rparr>))
     = CONNECTION_STATE_CLOSED \<and>
   connectionState (send [0x02] (env_quiet\<lparr>reactor := RequestRaises\<rparr>) conn_fresh)
     = CONNECTION_STATE_CLOSED"
proof -
  have q: "messageQueue conn_fresh = []" by (simp add: conn_fresh_def)
  note T0 = send_spec [where ?c0.0 = conn_fresh and e0 = env_quiet and c = conn_fresh
                         and cfg = cfg_ot
                         and ops = "[(env_quiet, Op_send [0x01]), (env_quiet, Op_send [0x02])]"
                         and c' = "send [0x02] env_quiet (send [0x01] env_quiet conn_fresh)"
                         and m = "[0x02]" and e = env_quiet]
  have k: "queue_has_socket conn_fresh \<and> queue_has_socket (accept_protocol p env_quiet conn_fresh) \<and>
           queue_has_socket (accept_plain env_quiet conn_fresh)" for p
    using T0 [where p = p, THEN conjunct1] q by simp
  have k0: "queue_has_socket conn_fresh" using k by simp
  have k1: "queue_has_socket (accept_plain env_quiet conn_fresh)" using k by simp
  have r: "queue_has_socket (send [0x02] env_quiet (send [0x01] env_quiet conn_fresh))"
    using T0 [THEN conjunct2, THEN conjunct1] k0 by simp
  have G: "send [0x02] env_quiet conn_fresh
     = conn_fresh\<lparr>messageQueue := [[0x02]], trace := [Post_internalWorker]\<rparr>"
    using T0 [THEN conjunct2, THEN conjunct2, THEN conjunct2, THEN conjunct2, THEN conjunct2,
              THEN conjunct2, THEN conjunct1]
    by (simp add: conn_fresh_def env_quiet_def emit_def)
  note T1 = send_spec [where c = conn_closed and m = "[0x02]" and e = env_quiet]
  have D: "send [0x02] env_quiet conn_closed = conn_closed"
    using T1 [THEN conjunct2, THEN conjunct2, THEN conjunct2, THEN conjunct1]
    by (simp add: conn_closed_def conn_fresh_def)
  have s1: "send [0x01] env_quiet conn_fresh
     = conn_fresh\<lparr>messageQueue := [[0x01]], trace := [Post_internalWorker]\<rparr>"
    by (simp add: send_def conn_fresh_def env_quiet_def emit_def)
  note T2 = send_spec [where c = "send [0x01] env_quiet conn_fresh" and m = "[0x02]" and e = env_quiet]
  have k2: "queue_has_socket (send [0x01] env_quiet conn_fresh)"
    by (rule send_has_socket [OF k0])
  have E: "messageQueue (send [0x02] env_quiet (send [0x01] env_quiet conn_fresh)) = [[0x01], [0x02]]"
    using T2 [THEN conjunct2, THEN conjunct2, THEN conjunct2, THEN conjunct2, THEN conjunct1] k2
    unfolding s1 by (simp add: conn_fresh_def)
  note T3 = send_spec [where c = "conn_fresh\<lparr>socket_is_open := False\<rparr>" and m = "[0x02]"
                         and e = env_quiet]
  have k3: "queue_has_socket (conn_fresh\<lparr>socket_is_open := False\<rparr>)"
    by (simp add: queue_has_socket_def conn_fresh_def)
  have n3: "connectionState (conn_fresh\<lparr>socket_is_open := False\<rparr>) \<noteq> CONNECTION_STATE_CLOSED \<and>
            \<not> socket_is_open (conn_fresh\<lparr>socket_is_open := False\<rparr>)"
    by (simp add: conn_fresh_def)
  have F: "messageQueue (send [0x02] env_quiet (conn_fresh\<lparr>socket_is_open := False\<rparr>)) = [] \<and>
   connectionState (send [0x02] env_quiet (conn_fresh\<lparr>socket_is_open := False\<rparr>))
     = CONNECTION_STATE_CLOSED"
    using T3 [THEN conjunct2, THEN conjunct2, THEN conjunct2, THEN conjunct2, THEN conjunct2,
              THEN conjunct1, THEN mp, OF conjI [OF k3 n3]]
    by blast
  note T4 = send_spec [where c = conn_fresh and m = "[0x02]"
                         and e = "env_quiet\<lparr>reactor := RequestRaises\<rparr>"]
  have H: "connectionState (send [0x02] (env_quiet\<lparr>reactor := RequestRaises\<rparr>) conn_fresh)
     = CONNECTION_STATE_CLOSED"
    using T4 [THEN conjunct2, THEN conjunct2, THEN conjunct2, THEN conjunct2, THEN conjunct2,
              THEN conjunct2, THEN conjunct2, THEN conjunct1]
    by (simp add: conn_fresh_def env_quiet_def close_fields)
  show ?thesis
    by (intro conjI) (rule k0, rule k1, rule r, rule D, rule E, rule G,
                      rule F [THEN conjunct1], rule F [THEN conjunct2], rule H)
qed

section \<open>Header parsing\<close>

lemma getIP_fields:
  "connectionState (snd (getIP e c)) = connectionState c"
  "receivedFirst (snd (getIP e c)) = receivedFirst c"
  "packetsSent (snd (getIP e c)) = packetsSent c"
  "timeConnected (snd (getIP e c)) = timeConnected c"
  "protocol (snd (getIP e c)) = protocol c"
  "msg (snd (getIP e c)) = msg c"
  "messageQueue (snd (getIP e c)) = messageQueue c"
  "socket_is_open (snd (getIP e c)) = socket_is_open c"
  "service_port (snd (getIP e c)) = service_port c"
  by (simp_all add: getIP_def emit_fields split: option.splits)

lemma getIP_count:
  "ev \<noteq> RemoteEndpointQuery \<Longrightarrow> ev \<noteq> Log LogError \<Longrightarrow>
   count_list (trace (snd (getIP e c))) ev = count_list (trace c) ev"
  by (simp add: getIP_def emit_fields split: option.splits)

lemma close_forced_socket:
  "connectionState c \<noteq> CONNECTION_STATE_CLOSED \<Longrightarrow> \<not> cancel_raises e \<Longrightarrow>
   \<not> socket_is_open (close True e c)"
  by (simp add: close_def closeSocket_def Let_def emit_fields split: option.splits)

lemma on_system_error_socket:
  "connectionState c \<noteq> CONNECTION_STATE_CLOSED \<Longrightarrow> \<not> cancel_raises e \<Longrightarrow>
   \<not> socket_is_open (on_system_error e c)"
  by (simp add: on_system_error_def close_forced_socket emit_fields)

lemma uint_timePassed:
  assumes "0 \<le> d" and "d + 1 < 2 ^ 32"
  shows "uint (max (1 :: u32) (word_of_int (d + 1))) = max 1 (d + 1)"
proof -
  have "uint (word_of_int (d + 1) :: u32) = take_bit LENGTH(32) (d + 1)"
    by (rule uint_word_of_int_eq)
  also have "\<dots> = d + 1"
    using assms by (simp add: take_bit_int_eq_self)
  finally have u: "uint (word_of_int (d + 1) :: u32) = d + 1" .
  have "uint (1 :: u32) \<le> uint (word_of_int (d + 1) :: u32)"
    using assms by (simp only: u) simp
  then have "(1 :: u32) \<le> word_of_int (d + 1)"
    by (simp only: word_le_def)
  then have m: "max (1 :: u32) (word_of_int (d + 1)) = word_of_int (d + 1)"
    by (rule max_absorb2)
  have "uint (max (1 :: u32) (word_of_int (d + 1))) = uint (word_of_int (d + 1) :: u32)"
    by (simp only: m)
  also have "\<dots> = d + 1" by (rule u)
  also have "\<dots> = max 1 (d + 1)" using assms by (simp add: max_def)
  finally show ?thesis .
qed

lemma unat_le16:
  fixes a b :: u8
  shows "unat ((ucast a :: u16) OR push_bit 8 (ucast b)) = unat a + 256 * unat b"
proof -
  have la: "unat a < 256" using unsigned_less [of a, where ?'a = nat] by simp
  have lb: "unat b < 256" using unsigned_less [of b, where ?'a = nat] by simp
  have d: "(ucast a :: u16) AND push_bit 8 (ucast b) = 0"
    by (rule bit_eqI) (auto simp: bit_simps dest: bit_imp_le_length)
  have o: "(ucast a :: u16) OR push_bit 8 (ucast b) = ucast a + push_bit 8 (ucast b)"
    using d by (simp add: disjunctive_add_eq_or)
  have ua: "unat (ucast a :: u16) = unat a"
    using la by (simp add: unsigned_ucast_eq take_bit_nat_eq_self)
  have ub0: "unat (ucast b :: u16) = unat b"
    using lb by (simp add: unsigned_ucast_eq take_bit_nat_eq_self)
  have "unat (push_bit 8 (ucast b :: u16))
          = take_bit LENGTH(16) (push_bit 8 (unat (ucast b :: u16)))"
    by (rule unsigned_push_bit_eq)
  also have "\<dots> = take_bit 16 (256 * unat b)"
    by (simp add: ub0 push_bit_eq_mult mult.commute)
  also have "\<dots> = 256 * unat b"
    using lb by (simp add: take_bit_nat_eq_self)
  finally have ub: "unat (push_bit 8 (ucast b :: u16)) = 256 * unat b" .
  have "unat ((ucast a :: u16) + push_bit 8 (ucast b))
          = unat (ucast a :: u16) + unat (push_bit 8 (ucast b :: u16))"
    using la lb by (subst unat_add_lem [THEN iffD1]) (simp_all add: ua ub)
  then show ?thesis by (simp add: o ua ub)
qed

lemma getLengthHeader_little_endian:
  "unat (getLengthHeader m) = unat (byteAt (buffer m) 0) + 256 * unat (byteAt (buffer m) 1)"
  by (simp add: getLengthHeader_def unat_le16)

text \<open>
  C3, as stated, fails: a header read that completes without error on a connection
  whose state is already CLOSED returns at once. \<open>packetsSent\<close> is not incremented and
  nothing but the cancellation of the read timer happens.
\<close>

theorem parseHeader_closed_counterexample:
  "connectionState conn_closed = CONNECTION_STATE_CLOSED \<and>
   parseHeader cfg_ot None env_quiet conn_closed = conn_closed\<lparr>trace := [ReadTimerCancel]\<rparr> \<and>
   packetsSent (parseHeader cfg_ot None env_quiet conn_closed) = packetsSent conn_closed \<and>
   packetsSent (parseHeader cfg_ot None env_quiet conn_closed) \<noteq> packetsSent conn_closed + 1"
  by (simp add: parseHeader_def conn_closed_def conn_fresh_def emit_def)

lemma uint_u32_in_range:
  "0 \<le> n \<Longrightarrow> n < 2 ^ 32 \<Longrightarrow> uint (word_of_int n :: u32) = n"
  by (simp add: uint_word_of_int_eq take_bit_int_eq_self)

text \<open>
  C3, amended. On a connection whose state is CLOSED, a header read that completes
  without error returns at once: the read timer is cancelled and nothing else happens.
  On a connection whose state is not CLOSED, \<open>parseHeader\<close> computes \<open>timePassed\<close>,
  increments \<open>packetsSent\<close>, and
  \<^item> if \<open>packetsSent / timePassed\<close> (integer division) exceeds the configured limit, it
    logs a warning (after reading the address through \<open>getIP\<close>) and performs a
    non-force close; \<open>packetsSent\<close> keeps the incremented value and \<open>timeConnected\<close> is
    not touched;
  \<^item> otherwise no warning is logged, and only then, if \<open>timePassed > 2\<close>, \<open>timeConnected\<close>
    becomes the clock's reading and \<open>packetsSent\<close> becomes 0; any close later on this
    path is a forced one: a connection that ends CLOSED has its socket closed (unless a
    cancellation raised).
  Whenever the clock is not behind \<open>timeConnected\<close> and the difference fits 32 bits,
  \<open>timePassed\<close> is the number \<open>max(1, now - timeConnected + 1)\<close>, the test
  \<open>timePassed > 2\<close> is the test of that number, and, for a limit from 0 to \<open>2^32 - 1\<close>,
  the limit is exceeded exactly when the integer quotient of \<open>packetsSent\<close> by that
  number is greater than the limit.
\<close>

theorem parseHeader_rate_limit:
  "(connectionState c = CONNECTION_STATE_CLOSED \<longrightarrow>
      parseHeader cfg None e c = emit ReadTimerCancel c) \<and>
   (connectionState c \<noteq> CONNECTION_STATE_CLOSED \<longrightarrow>
     (let timePassed = max (1 :: u32) (word_of_int (time_first e - timeConnected c + 1));
          sent = packetsSent c + 1;
          exceeded = (sent div timePassed > word_of_int (MAX_PACKETS_PER_SECOND cfg));
          r = parseHeader cfg None e c
      in (exceeded \<longrightarrow>
            r = close False e
                  (emit (Log LogWarn)
                     (snd (getIP e ((emit ReadTimerCancel c)\<lparr>packetsSent := sent\<rparr>))))) \<and>
         count_list (trace r) (Log LogWarn)
           = count_list (trace c) (Log LogWarn) + (if exceeded then 1 else 0) \<and>
         packetsSent r = (if \<not> exceeded \<and> timePassed > 2 then 0 else sent) \<and>
         timeConnected r
           = (if \<not> exceeded \<and> timePassed > 2 then time_second e else timeConnected c) \<and>
         (\<not> exceeded \<and> connectionState r = CONNECTION_STATE_CLOSED \<and> \<not> cancel_raises e
            \<longrightarrow> \<not> socket_is_open r) \<and>
         (0 \<le> time_first e - timeConnected c \<and> time_first e - timeConnected c + 1 < 2 ^ 32
            \<longrightarrow> uint timePassed = max 1 (time_first e - timeConnected c + 1) \<and>
                (timePassed > 2) = (max 1 (time_first e - timeConnected c + 1) > 2) \<and>
                (0 \<le> MAX_PACKETS_PER_SECOND cfg \<and> MAX_PACKETS_PER_SECOND cfg < 2 ^ 32 \<longrightarrow>
                   exceeded = (uint sent div max 1 (time_first e - timeConnected c + 1)
                                 > MAX_PACKETS_PER_SECOND cfg)))))"
proof -
  define timePassed where
    "timePassed = max (1 :: u32) (word_of_int (time_first e - timeConnected c + 1))"
  define sent where "sent = packetsSent c + 1"
  define exceeded where
    "exceeded = (sent div timePassed > word_of_int (MAX_PACKETS_PER_SECOND cfg))"
  define r where "r = parseHeader cfg None e c"
  have 0: "connectionState c = CONNECTION_STATE_CLOSED \<longrightarrow>
      parseHeader cfg None e c = emit ReadTimerCancel c"
    by (simp add: parseHeader_def Let_def emit_fields)
  have 1: "exceeded \<longrightarrow> r = close False e
                 (emit (Log LogWarn)
                    (snd (getIP e ((emit ReadTimerCancel c)\<lparr>packetsSent := sent\<rparr>))))"
    if "connectionState c \<noteq> CONNECTION_STATE_CLOSED"
    using that unfolding r_def exceeded_def sent_def timePassed_def
    by (simp add: parseHeader_def Let_def emit_fields)
  have 2: "count_list (trace r) (Log LogWarn)
          = count_list (trace c) (Log LogWarn) + (if exceeded then 1 else 0)"
    if "connectionState c \<noteq> CONNECTION_STATE_CLOSED"
    using that unfolding r_def exceeded_def sent_def timePassed_def
    by (simp add: parseHeader_def Let_def emit_fields close_count on_system_error_count getIP_count
          getBodyBuffer_def split: try_outcome.splits)
  have 3: "packetsSent r = (if \<not> exceeded \<and> timePassed > 2 then 0 else sent)"
    if "connectionState c \<noteq> CONNECTION_STATE_CLOSED"
    using that unfolding r_def exceeded_def sent_def timePassed_def
    by (simp add: parseHeader_def Let_def emit_fields close_fields on_system_error_def getIP_fields
          getBodyBuffer_def split: try_outcome.splits)
  have 4: "timeConnected r
          = (if \<not> exceeded \<and> timePassed > 2 then time_second e else timeConnected c)"
    if "connectionState c \<noteq> CONNECTION_STATE_CLOSED"
    using that unfolding r_def exceeded_def sent_def timePassed_def
    by (simp add: parseHeader_def Let_def emit_fields close_fields on_system_error_def getIP_fields
          getBodyBuffer_def split: try_outcome.splits)
  have 5: "\<not> exceeded \<and> connectionState r = CONNECTION_STATE_CLOSED \<and> \<not> cancel_raises e
           \<longrightarrow> \<not> socket_is_open r"
    if "connectionState c \<noteq> CONNECTION_STATE_CLOSED"
    using that unfolding r_def exceeded_def sent_def timePassed_def
    by (auto simp: parseHeader_def Let_def emit_fields close_forced_socket on_system_error_socket
          getBodyBuffer_def split: try_outcome.splits if_splits)
  have 6: "0 \<le> time_first e - timeConnected c \<and> time_first e - timeConnected c + 1 < 2 ^ 32
            \<longrightarrow> uint timePassed = max 1 (time_first e - timeConnected c + 1) \<and>
                (timePassed > 2) = (max 1 (time_first e - timeConnected c + 1) > 2) \<and>
                (0 \<le> MAX_PACKETS_PER_SECOND cfg \<and> MAX_PACKETS_PER_SECOND cfg < 2 ^ 32 \<longrightarrow>
                   exceeded = (uint sent div max 1 (time_first e - timeConnected c + 1)
                                 > MAX_PACKETS_PER_SECOND cfg))"
  proof (intro impI)
    assume h: "0 \<le> time_first e - timeConnected c \<and> time_first e - timeConnected c + 1 < 2 ^ 32"
    have u: "uint timePassed = max 1 (time_first e - timeConnected c + 1)"
      unfolding timePassed_def using h by (intro uint_timePassed) simp_all
    have g: "(timePassed > 2) = (max 1 (time_first e - timeConnected c + 1) > 2)"
      unfolding u [symmetric] by (simp add: word_less_def)
    have x: "exceeded = (uint sent div max 1 (time_first e - timeConnected c + 1)
                                 > MAX_PACKETS_PER_SECOND cfg)"
      if m: "0 \<le> MAX_PACKETS_PER_SECOND cfg \<and> MAX_PACKETS_PER_SECOND cfg < 2 ^ 32"
    proof -
      have "exceeded = (uint (word_of_int (MAX_PACKETS_PER_SECOND cfg) :: u32) < uint (sent div timePassed))"
        unfolding exceeded_def by (simp only: word_less_def)
      also have "uint (word_of_int (MAX_PACKETS_PER_SECOND cfg) :: u32) = MAX_PACKETS_PER_SECOND cfg"
        using m by (intro uint_u32_in_range) simp_all
      also have "uint (sent div timePassed) = uint sent div uint timePassed"
        by (rule uint_div)
      finally show ?thesis by (simp only: u)
    qed
    show "uint timePassed = max 1 (time_first e - timeConnected c + 1) \<and>
                (timePassed > 2) = (max 1 (time_first e - timeConnected c + 1) > 2) \<and>
                (0 \<le> MAX_PACKETS_PER_SECOND cfg \<and> MAX_PACKETS_PER_SECOND cfg < 2 ^ 32 \<longrightarrow>
                   exceeded = (uint sent div max 1 (time_first e - timeConnected c + 1)
                                 > MAX_PACKETS_PER_SECOND cfg))"
      using u g x by (intro conjI impI)
  qed
  have B: "connectionState c \<noteq> CONNECTION_STATE_CLOSED \<longrightarrow>
     (let timePassed = max (1 :: u32) (word_of_int (time_first e - timeConnected c + 1));
          sent = packetsSent c + 1;
          exceeded = (sent div timePassed > word_of_int (MAX_PACKETS_PER_SECOND cfg));
          r = parseHeader cfg None e c
      in (exceeded \<longrightarrow>
            r = close False e
                  (emit (Log LogWarn)
                     (snd (getIP e ((emit ReadTimerCancel c)\<lparr>packetsSent := sent\<rparr>))))) \<and>
         count_list (trace r) (Log LogWarn)
           = count_list (trace c) (Log LogWarn) + (if exceeded then 1 else 0) \<and>
         packetsSent r = (if \<not> exceeded \<and> timePassed > 2 then 0 else sent) \<and>
         timeConnected r
           = (if \<not> exceeded \<and> timePassed > 2 then time_second e else timeConnected c) \<and>
         (\<not> exceeded \<and> connectionState r = CONNECTION_STATE_CLOSED \<and> \<not> cancel_raises e
            \<longrightarrow> \<not> socket_is_open r) \<and>
         (0 \<le> time_first e - timeConnected c \<and> time_first e - timeConnected c + 1 < 2 ^ 32
            \<longrightarrow> uint timePassed = max 1 (time_first e - timeConnected c + 1) \<and>
                (timePassed > 2) = (max 1 (time_first e - timeConnected c + 1) > 2) \<and>
                (0 \<le> MAX_PACKETS_PER_SECOND cfg \<and> MAX_PACKETS_PER_SECOND cfg < 2 ^ 32 \<longrightarrow>
                   exceeded = (uint sent div max 1 (time_first e - timeConnected c + 1)
                                 > MAX_PACKETS_PER_SECOND cfg))))"
    unfolding Let_def r_def [symmetric] timePassed_def [symmetric] sent_def [symmetric]
      exceeded_def [symmetric]
  proof (rule impI)
    assume n: "connectionState c \<noteq> CONNECTION_STATE_CLOSED"
    show "(exceeded \<longrightarrow>
            r = close False e
                  (emit (Log LogWarn)
                     (snd (getIP e ((emit ReadTimerCancel c)\<lparr>packetsSent := sent\<rparr>))))) \<and>
         count_list (trace r) (Log LogWarn)
           = count_list (trace c) (Log LogWarn) + (if exceeded then 1 else 0) \<and>
         packetsSent r = (if \<not> exceeded \<and> timePassed > 2 then 0 else sent) \<and>
         timeConnected r
           = (if \<not> exceeded \<and> timePassed > 2 then time_second e else timeConnected c) \<and>
         (\<not> exceeded \<and> connectionState r = CONNECTION_STATE_CLOSED \<and> \<not> cancel_raises e
            \<longrightarrow> \<not> socket_is_open r) \<and>
         (0 \<le> time_first e - timeConnected c \<and> time_first e - timeConnected c + 1 < 2 ^ 32
            \<longrightarrow> uint timePassed = max 1 (time_first e - timeConnected c + 1) \<and>
                (timePassed > 2) = (max 1 (time_first e - timeConnected c + 1) > 2) \<and>
                (0 \<le> MAX_PACKETS_PER_SECOND cfg \<and> MAX_PACKETS_PER_SECOND cfg < 2 ^ 32 \<longrightarrow>
                   exceeded = (uint sent div max 1 (time_first e - timeConnected c + 1)
                                 > MAX_PACKETS_PER_SECOND cfg)))"
      by (intro conjI)
         (rule 1 [OF n], rule 2 [OF n], rule 3 [OF n], rule 4 [OF n], rule 5 [OF n], rule 6)
  qed
  show ?thesis by (rule conjI [OF 0 B])
qed

theorem parseHeader_rate_limit_witness:
  "parseHeader cfg_ot None env_quiet conn_drained
     = conn_drained\<lparr>trace := trace conn_drained @ [ReadTimerCancel]\<rparr> \<and>
   connectionState (parseHeader cfg_ot None env_quiet conn_flooding) = CONNECTION_STATE_CLOSED \<and>
   socket_is_open (parseHeader cfg_ot None env_quiet conn_flooding) \<and>
   count_list (trace (parseHeader cfg_ot None env_quiet conn_flooding)) (Log LogWarn) = 1 \<and>
   packetsSent (parseHeader cfg_ot None env_quiet conn_flooding) = 26 \<and>
   packetsSent (parseHeader cfg_ot None env_quiet conn_fresh) = 1 \<and>
   timeConnected (parseHeader cfg_ot None env_quiet conn_fresh) = 1000 \<and>
   packetsSent (parseHeader cfg_ot None (env_quiet\<lparr>time_second := 1001\<rparr>) conn_stale) = 0 \<and>
   timeConnected (parseHeader cfg_ot None (env_quiet\<lparr>time_second := 1001\<rparr>) conn_stale) = 1001"
proof -
  have d: "connectionState conn_drained = CONNECTION_STATE_CLOSED"
    by (simp add: conn_drained_def close_fields)
  have A: "parseHeader cfg_ot None env_quiet conn_drained
     = conn_drained\<lparr>trace := trace conn_drained @ [ReadTimerCancel]\<rparr>"
    using parseHeader_rate_limit [where c = conn_drained and e = env_quiet and cfg = cfg_ot,
            THEN conjunct1, THEN mp, OF d]
    by (simp add: emit_def)
  have B: "connectionState (parseHeader cfg_ot None env_quiet conn_flooding) = CONNECTION_STATE_CLOSED \<and>
   socket_is_open (parseHeader cfg_ot None env_quiet conn_flooding) \<and>
   count_list (trace (parseHeader cfg_ot None env_quiet conn_flooding)) (Log LogWarn) = 1 \<and>
   packetsSent (parseHeader cfg_ot None env_quiet conn_flooding) = 26 \<and>
   packetsSent (parseHeader cfg_ot None env_quiet conn_fresh) = 1 \<and>
   timeConnected (parseHeader cfg_ot None env_quiet conn_fresh) = 1000 \<and>
   packetsSent (parseHeader cfg_ot None (env_quiet\<lparr>time_second := 1001\<rparr>) conn_stale) = 0 \<and>
   timeConnected (parseHeader cfg_ot None (env_quiet\<lparr>time_second := 1001\<rparr>) conn_stale) = 1001"
    using parseHeader_rate_limit [where c = conn_flooding and e = env_quiet and cfg = cfg_ot,
            THEN conjunct2]
          parseHeader_rate_limit [where c = conn_fresh and e = env_quiet and cfg = cfg_ot,
            THEN conjunct2]
          parseHeader_rate_limit [where c = conn_stale and e = "env_quiet\<lparr>time_second := 1001\<rparr>"
            and cfg = cfg_ot, THEN conjunct2]
    by (simp add: Let_def conn_flooding_def conn_stale_def conn_fresh_def env_quiet_def cfg_ot_def
          close_def closeSocket_def getIP_def emit_def)
  show ?thesis by (rule conjI [OF A B])
qed

lemma on_system_error_state: "connectionState (on_system_error e c) = CONNECTION_STATE_CLOSED"
  by (simp add: on_system_error_def close_fields)

text \<open>
  C8, as stated, fails: the rate limit is checked before the length field is read. A
  connection that is not CLOSED completes, without error, its 26th header read within
  one second (limit 25); the length field is 5, a valid size. \<open>parseHeader\<close> performs
  the non-force close and returns: the message length is not set, no body read is
  requested, and (a message is still queued) the socket stays open.
\<close>

theorem parseHeader_rate_limited_counterexample:
  "connectionState conn_flooding \<noteq> CONNECTION_STATE_CLOSED \<and>
   getLengthHeader (msg conn_flooding) = 5 \<and>
   unat (getLengthHeader (msg conn_flooding)) \<le> INPUTMESSAGE_MAXSIZE cfg_ot \<and>
   connectionState (parseHeader cfg_ot None env_quiet conn_flooding) = CONNECTION_STATE_CLOSED \<and>
   socket_is_open (parseHeader cfg_ot None env_quiet conn_flooding) \<and>
   info_length (msg (parseHeader cfg_ot None env_quiet conn_flooding)) = 0 \<and>
   count_list (trace (parseHeader cfg_ot None env_quiet conn_flooding))
     (AsyncRead HEADER_LENGTH 5 To_parsePacket) = 0"
  by (simp add: parseHeader_def Let_def conn_flooding_def conn_fresh_def env_quiet_def cfg_ot_def
        msg_header_def getLengthHeader_def byteAt_def close_def closeSocket_def getIP_def emit_def
        HEADER_LENGTH_def)

text \<open>
  C8, amended. For every header read that completes without error on a connection that
  is not CLOSED and whose packet rate does not exceed the limit, \<open>parseHeader\<close> reads
  the little-endian 16-bit length field and
  \<^item> force-closes the connection when the field is 0 or greater than
    \<open>INPUTMESSAGE_MAXSIZE\<close>;
  \<^item> otherwise arms the read timer, sets the message length to \<open>size + HEADER_LENGTH\<close>
    and requests a body read of exactly \<open>size\<close> bytes behind the header whose completion
    is \<open>parsePacket\<close>, the connection keeping its state; if a reactor call raises while
    doing so, the connection is force-closed and no body read is requested.
\<close>

theorem parseHeader_length_check:
  assumes "connectionState c \<noteq> CONNECTION_STATE_CLOSED"
    and "\<not> (packetsSent c + 1) div max (1 :: u32) (word_of_int (time_first e - timeConnected c + 1))
             > word_of_int (MAX_PACKETS_PER_SECOND cfg)"
  shows
    "let size = getLengthHeader (msg c);
         valid = (size \<noteq> 0 \<and> unat size \<le> INPUTMESSAGE_MAXSIZE cfg);
         timePassed = max (1 :: u32) (word_of_int (time_first e - timeConnected c + 1));
         c2 = (emit ReadTimerCancel c)
                \<lparr>timeConnected := (if timePassed > 2 then time_second e else timeConnected c),
                 packetsSent := (if timePassed > 2 then 0 else packetsSent c + 1)\<rparr>;
         r = parseHeader cfg None e c
     in unat size = unat (byteAt (buffer (msg c)) 0) + 256 * unat (byteAt (buffer (msg c)) 1) \<and>
        (\<not> valid \<longrightarrow> r = close True e c2) \<and>
        (valid \<and> reactor e = NoRaise \<longrightarrow>
           connectionState r = connectionState c \<and>
           info_length (msg r) = unat size + HEADER_LENGTH \<and>
           buffer (msg r) = buffer (msg c) \<and>
           trace r = trace c @ [ReadTimerCancel, ReadTimerArm,
                                AsyncRead HEADER_LENGTH (unat size) To_parsePacket]) \<and>
        (valid \<and> reactor e \<noteq> NoRaise \<longrightarrow>
           connectionState r = CONNECTION_STATE_CLOSED \<and>
           count_list (trace r) (AsyncRead HEADER_LENGTH (unat size) To_parsePacket)
             = count_list (trace c) (AsyncRead HEADER_LENGTH (unat size) To_parsePacket) \<and>
           (\<not> cancel_raises e \<longrightarrow> \<not> socket_is_open r))"
proof -
  define size where "size = getLengthHeader (msg c)"
  define valid where "valid = (size \<noteq> 0 \<and> unat size \<le> INPUTMESSAGE_MAXSIZE cfg)"
  define timePassed where
    "timePassed = max (1 :: u32) (word_of_int (time_first e - timeConnected c + 1))"
  define c2 where
    "c2 = (emit ReadTimerCancel c)
                \<lparr>timeConnected := (if timePassed > 2 then time_second e else timeConnected c),
                 packetsSent := (if timePassed > 2 then 0 else packetsSent c + 1)\<rparr>"
  define r where "r = parseHeader cfg None e c"
  have st: "connectionState c2 \<noteq> CONNECTION_STATE_CLOSED"
    using assms(1) by (simp add: c2_def emit_fields)
  have step: "r = (if \<not> valid then close True e c2
                   else case reactor e of
                          TimerRaises \<Rightarrow> on_system_error e c2
                        | RequestRaises \<Rightarrow>
                            on_system_error e
                              ((emit ReadTimerArm c2)
                                 \<lparr>msg := (msg c)\<lparr>info_length := unat size + HEADER_LENGTH,
                                                  info_position := HEADER_LENGTH\<rparr>\<rparr>)
                        | NoRaise \<Rightarrow>
                            emit (AsyncRead HEADER_LENGTH (unat size) To_parsePacket)
                              ((emit ReadTimerArm c2)
                                 \<lparr>msg := (msg c)\<lparr>info_length := unat size + HEADER_LENGTH,
                                                  info_position := HEADER_LENGTH\<rparr>\<rparr>))"
    using assms unfolding r_def c2_def valid_def size_def timePassed_def
    by (simp add: parseHeader_def Let_def emit_def getBodyBuffer_def setLength_def not_le
          split: try_outcome.splits)
  have 0: "unat size = unat (byteAt (buffer (msg c)) 0) + 256 * unat (byteAt (buffer (msg c)) 1)"
    unfolding size_def by (rule getLengthHeader_little_endian)
  have 1: "\<not> valid \<Longrightarrow> r = close True e c2"
    by (simp add: step)
  have 2: "valid \<Longrightarrow> reactor e = NoRaise \<Longrightarrow>
           connectionState r = connectionState c \<and>
           info_length (msg r) = unat size + HEADER_LENGTH \<and>
           buffer (msg r) = buffer (msg c) \<and>
           trace r = trace c @ [ReadTimerCancel, ReadTimerArm,
                                AsyncRead HEADER_LENGTH (unat size) To_parsePacket]"
    by (simp add: step c2_def emit_def)
  have 3: "valid \<Longrightarrow> reactor e \<noteq> NoRaise \<Longrightarrow>
           connectionState r = CONNECTION_STATE_CLOSED \<and>
           count_list (trace r) (AsyncRead HEADER_LENGTH (unat size) To_parsePacket)
             = count_list (trace c) (AsyncRead HEADER_LENGTH (unat size) To_parsePacket) \<and>
           (\<not> cancel_raises e \<longrightarrow> \<not> socket_is_open r)"
  proof -
    assume v: valid and n: "reactor e \<noteq> NoRaise"
    have tr: "trace c2 = trace c @ [ReadTimerCancel]"
      by (simp add: c2_def emit_fields)
    show ?thesis
      using st v n tr
      by (cases "reactor e")
         (simp_all add: step on_system_error_count on_system_error_socket on_system_error_state
            emit_fields)
  qed
  show ?thesis
    using 0 1 2 3
    unfolding Let_def r_def [symmetric] timePassed_def [symmetric] size_def [symmetric]
      valid_def [symmetric] c2_def [symmetric]
    by blast
qed

theorem parseHeader_length_check_witness:
  "parseHeader cfg_ot None env_quiet (conn_fresh\<lparr>msg := msg_header\<rparr>)
     = conn_fresh\<lparr>packetsSent := 1,
                   msg := \<lparr>buffer = [0x05, 0x00], info_length = 7, info_position = 2\<rparr>,
                   trace := [ReadTimerCancel, ReadTimerArm, AsyncRead 2 5 To_parsePacket]\<rparr> \<and>
   connectionState (parseHeader cfg_ot None env_quiet
       (conn_fresh\<lparr>msg := msg_header\<lparr>buffer := [0x00, 0x00]\<rparr>\<rparr>)) = CONNECTION_STATE_CLOSED \<and>
   \<not> socket_is_open (parseHeader cfg_ot None env_quiet
       (conn_fresh\<lparr>msg := msg_header\<lparr>buffer := [0x00, 0x00]\<rparr>\<rparr>)) \<and>
   connectionState (parseHeader cfg_ot None env_quiet
       (conn_fresh\<lparr>msg := msg_header\<lparr>buffer := [0xDD, 0xFF]\<rparr>\<rparr>)) = CONNECTION_STATE_CLOSED \<and>
   connectionState (parseHeader cfg_ot None (env_quiet\<lparr>reactor := TimerRaises\<rparr>)
       (conn_fresh\<lparr>msg := msg_header\<rparr>)) = CONNECTION_STATE_CLOSED"
  using parseHeader_length_check [where c = "conn_fresh\<lparr>msg := msg_header\<rparr>" and e = env_quiet and cfg = cfg_ot]
        parseHeader_length_check
          [where c = "conn_fresh\<lparr>msg := msg_header\<lparr>buffer := [0x00, 0x00]\<rparr>\<rparr>" and e = env_quiet
             and cfg = cfg_ot]
        parseHeader_length_check
          [where c = "conn_fresh\<lparr>msg := msg_header\<lparr>buffer := [0xDD, 0xFF]\<rparr>\<rparr>" and e = env_quiet
             and cfg = cfg_ot]
        parseHeader_length_check
          [where c = "conn_fresh\<lparr>msg := msg_header\<rparr>"
             and e = "env_quiet\<lparr>reactor := TimerRaises\<rparr>" and cfg = cfg_ot]
  by (simp add: Let_def parseHeader_def conn_fresh_def env_quiet_def cfg_ot_def msg_header_def
        getLengthHeader_def byteAt_def getBodyBuffer_def setLength_def HEADER_LENGTH_def
        on_system_error_def close_def closeSocket_def emit_def)

section \<open>The first packet\<close>

lemma skip_back:
  "skipBytes (- int CHECKSUM_LENGTH) (snd (get_u32 m)) = m"
  by (simp add: skipBytes_def get_u32_def Let_def CHECKSUM_LENGTH_def)

text \<open>
  C1. For a first packet (no error, connection not CLOSED, \<open>receivedFirst\<close> false) on a
  connection with no protocol bound, \<open>parsePacket\<close> computes
  \<open>len = length - cursor - CHECKSUM_LENGTH\<close>; the computed checksum is Adler-32 over the
  \<open>len\<close> bytes behind the 4-byte checksum field if \<open>len > 0\<close> and 0 otherwise. It
  reads the 32-bit \<open>recvChecksum\<close> under the cursor; the message it hands to the
  ServicePort has the cursor 4 bytes further, rewound by \<open>CHECKSUM_LENGTH\<close> exactly when
  \<open>recvChecksum\<close> differs from the computed value, and the parameter \<open>checksummed\<close> is
  \<open>recvChecksum = computed\<close>. When no protocol is returned the connection is
  force-closed and nothing is delivered; when a protocol \<open>p\<close> is returned it is bound,
  the message is delivered through \<open>onRecvFirstMessage\<close> and the next header read is
  requested. So, as long as re-arming the read does not raise, the connection ends
  CLOSED exactly when no protocol is returned. (If re-arming raises, the
  \<^verbatim>\<open>catch\<close> handler force-closes after the delivery.)
\<close>

theorem parsePacket_first_unbound:
  assumes "connectionState c \<noteq> CONNECTION_STATE_CLOSED"
    and "\<not> receivedFirst c"
    and "protocol c = None"
  shows
    "let m = msg c;
         len = int (getLength m) - int (getBufferPosition m) - int CHECKSUM_LENGTH;
         computed =
           (if len > 0
            then adlerChecksum (bytesAt (buffer m) (getBufferPosition m + CHECKSUM_LENGTH) (nat len))
            else 0);
         recvChecksum = fst (get_u32 m);
         m2 = m\<lparr>info_position :=
                 info_position m + CHECKSUM_LENGTH
                   - (if recvChecksum \<noteq> computed then CHECKSUM_LENGTH else 0)\<rparr>;
         made = make_protocol (service_port c) (recvChecksum = computed) m2;
         c2 = (emit ReadTimerCancel c)\<lparr>receivedFirst := True, msg := snd made, protocol := fst made\<rparr>;
         r = parsePacket None e c
     in r = (case fst made of
               None \<Rightarrow> Inr (close True e c2)
             | Some p \<Rightarrow>
                 (case reactor e of
                    NoRaise \<Rightarrow>
                      Inr (c2\<lparr>trace := trace c @ [ReadTimerCancel, OnRecvFirstMessage p (snd made),
                                                 ReadTimerArm,
                                                 AsyncRead 0 HEADER_LENGTH To_parseHeader]\<rparr>)
                  | TimerRaises \<Rightarrow>
                      Inr (on_system_error e (emit (OnRecvFirstMessage p (snd made)) c2))
                  | RequestRaises \<Rightarrow>
                      Inr (on_system_error e
                             (emit ReadTimerArm (emit (OnRecvFirstMessage p (snd made)) c2))))) \<and>
        (reactor e = NoRaise \<longrightarrow>
           (case r of
              Inr c' \<Rightarrow> (connectionState c' = CONNECTION_STATE_CLOSED) = (fst made = None)
            | Inl f \<Rightarrow> False))"
proof -
  define m where "m = msg c"
  define len where "len = int (getLength m) - int (getBufferPosition m) - int CHECKSUM_LENGTH"
  define computed where "computed =
           (if len > 0
            then adlerChecksum (bytesAt (buffer m) (getBufferPosition m + CHECKSUM_LENGTH) (nat len))
            else 0)"
  define recvChecksum where "recvChecksum = fst (get_u32 m)"
  define m2 where "m2 = m\<lparr>info_position :=
                 info_position m + CHECKSUM_LENGTH
                   - (if recvChecksum \<noteq> computed then CHECKSUM_LENGTH else 0)\<rparr>"
  define made where "made = make_protocol (service_port c) (recvChecksum = computed) m2"
  define c2 where
    "c2 = (emit ReadTimerCancel c)\<lparr>receivedFirst := True, msg := snd made, protocol := fst made\<rparr>"
  define r where "r = parsePacket None e c"
  have m2': "m2 = (if recvChecksum \<noteq> computed
                   then skipBytes (- int CHECKSUM_LENGTH) (snd (get_u32 m)) else snd (get_u32 m))"
    by (simp add: m2_def skip_back) (simp add: get_u32_def Let_def CHECKSUM_LENGTH_def)
  have step: "r = (case fst made of
                     None \<Rightarrow> Inr (close True e c2)
                   | Some p \<Rightarrow>
                       Inr (parsePacket_tail False e (emit (OnRecvFirstMessage p (snd made)) c2)))"
    using assms
    unfolding r_def c2_def made_def m2' recvChecksum_def computed_def len_def m_def
    by (simp add: parsePacket_def Let_def emit_fields split_beta split: option.splits)
  have st: "connectionState c2 \<noteq> CONNECTION_STATE_CLOSED"
    using assms(1) by (simp add: c2_def emit_fields)
  have 1: "r = (case fst made of
               None \<Rightarrow> Inr (close True e c2)
             | Some p \<Rightarrow>
                 (case reactor e of
                    NoRaise \<Rightarrow>
                      Inr (c2\<lparr>trace := trace c @ [ReadTimerCancel, OnRecvFirstMessage p (snd made),
                                                 ReadTimerArm,
                                                 AsyncRead 0 HEADER_LENGTH To_parseHeader]\<rparr>)
                  | TimerRaises \<Rightarrow>
                      Inr (on_system_error e (emit (OnRecvFirstMessage p (snd made)) c2))
                  | RequestRaises \<Rightarrow>
                      Inr (on_system_error e
                             (emit ReadTimerArm (emit (OnRecvFirstMessage p (snd made)) c2)))))"
    by (simp add: step parsePacket_tail_def Let_def c2_def emit_def
          split: option.splits try_outcome.splits)
  have 2: "reactor e = NoRaise \<Longrightarrow>
           (case r of
              Inr c' \<Rightarrow> (connectionState c' = CONNECTION_STATE_CLOSED) = (fst made = None)
            | Inl f \<Rightarrow> False)"
    using st by (simp add: 1 close_fields split: option.splits)
  show ?thesis
    using 1 2
    unfolding Let_def r_def [symmetric] c2_def [symmetric] made_def [symmetric] m2_def [symmetric]
      recvChecksum_def [symmetric] computed_def [symmetric] len_def [symmetric] m_def [symmetric]
    by blast
qed

theorem parsePacket_first_unbound_witness:
  "parsePacket None env_quiet conn_fresh
     = Inr (conn_fresh
              \<lparr>receivedFirst := True, protocol := Some (Protocol_of svc_login),
               msg := msg_first\<lparr>info_position := 7\<rparr>,
               trace := [ReadTimerCancel,
                         OnRecvFirstMessage (Protocol_of svc_login) (msg_first\<lparr>info_position := 7\<rparr>),
                         ReadTimerArm, AsyncRead 0 2 To_parseHeader]\<rparr>) \<and>
   parsePacket None env_quiet (conn_fresh\<lparr>msg := msg_plain\<rparr>)
     = Inr (conn_fresh
              \<lparr>receivedFirst := True, protocol := Some (Protocol_of svc_status),
               msg := msg_plain\<lparr>info_position := 3\<rparr>,
               trace := [ReadTimerCancel,
                         OnRecvFirstMessage (Protocol_of svc_status) (msg_plain\<lparr>info_position := 3\<rparr>),
                         ReadTimerArm, AsyncRead 0 2 To_parseHeader]\<rparr>) \<and>
   parsePacket None env_quiet
       (conn_fresh\<lparr>msg := msg_plain, service_port := port_empty\<lparr>services := [svc_login]\<rparr>\<rparr>)
     = Inr (close True env_quiet
              (conn_fresh\<lparr>receivedFirst := True, msg := msg_plain\<lparr>info_position := 3\<rparr>,
                            service_port := port_empty\<lparr>services := [svc_login]\<rparr>,
                            trace := [ReadTimerCancel]\<rparr>))"
  using parsePacket_first_unbound [where c = conn_fresh and e = env_quiet]
        parsePacket_first_unbound [where c = "conn_fresh\<lparr>msg := msg_plain\<rparr>" and e = env_quiet]
        parsePacket_first_unbound
          [where c = "conn_fresh\<lparr>msg := msg_plain,
                                   service_port := port_empty\<lparr>services := [svc_login]\<rparr>\<rparr>"
             and e = env_quiet]
  by (simp add: Let_def conn_fresh_def env_quiet_def msg_first_def msg_plain_def port_login_def
        port_empty_def svc_login_def svc_old_login_def svc_status_def getLength_def
        getBufferPosition_def CHECKSUM_LENGTH_def HEADER_LENGTH_def adlerChecksum_def bytesAt_def
        byteAt_def get_u32_def make_protocol_def getByte_def Service_make_protocol_def emit_def)

section \<open>Proxy identification\<close>

lemma byteAt_tl: "byteAt (tl s) i = byteAt s (Suc i)"
  by (cases s) (simp_all add: byteAt_def)

lemma tolower_zero: "(tolower x = 0) = (x = 0)"
proof -
  have "x + 0x20 \<noteq> 0" if "x \<le> 0x5A"
  proof
    assume z: "x + 0x20 = 0"
    from that have "unat x \<le> 90" by (simp add: word_le_nat_alt)
    moreover have "unat (x + 0x20) = (unat x + 32) mod 256"
      by (simp add: unat_word_ariths)
    ultimately have "unat (x + 0x20) = unat x + 32" by simp
    with z show False by simp
  qed
  then show ?thesis by (auto simp: tolower_def)
qed

lemma uint_eq_u8: "(uint (a :: u8) = uint b) = (a = b)"
  by (simp add: word_uint_eq_iff)

lemma tolower_0: "tolower 0 = 0"
  by (simp add: tolower_def)

lemma strncasecmp_Suc:
  "(strncasecmp b s (Suc n) = 0) =
     (tolower (byteAt b 0) = tolower (byteAt s 0) \<and>
      (byteAt b 0 = 0 \<or> strncasecmp (tl b) (tl s) n = 0))"
proof (cases "byteAt b 0 = 0")
  case True
  then show ?thesis by (simp add: Let_def uint_eq_u8 tolower_0 unsigned_eq_0_iff)
next
  case False
  then have "tolower (byteAt b 0) \<noteq> 0" by (simp add: tolower_zero)
  with False show ?thesis by (simp add: Let_def uint_eq_u8)
qed

lemma strncasecmp_2:
  "(strncasecmp b s 2 = 0) =
     (tolower (byteAt b 0) = tolower (byteAt s 0) \<and>
      (byteAt b 0 = 0 \<or> tolower (byteAt b 1) = tolower (byteAt s 1)))"
  unfolding numeral_2_eq_2 strncasecmp_Suc
  by (simp add: byteAt_tl del: strncasecmp.simps(2))

lemma strncasecmp_map:
  "0 \<notin> set s \<Longrightarrow> length s \<le> length b \<Longrightarrow>
   (strncasecmp b s (length s) = 0) = (map tolower (take (length s) b) = map tolower s)"
proof (induction s arbitrary: b)
  case Nil
  then show ?case by simp
next
  case (Cons x xs)
  then obtain y ys where b: "b = y # ys" by (cases b) auto
  have "length (x # xs) = Suc (length xs)" by simp
  with Cons b show ?case
    unfolding \<open>length (x # xs) = Suc (length xs)\<close> strncasecmp_Suc
    by (auto simp: byteAt_def tolower_zero tolower_0 simp del: strncasecmp.simps)
qed

lemma match_needs_name:
  assumes "byteAt b 1 \<noteq> 0" and "strncasecmp b (name @ [0x0A]) 2 = 0"
  shows "name \<noteq> []"
proof
  assume "name = []"
  with assms(2) have "tolower (byteAt b 0) = tolower 0x0A"
    and "byteAt b 0 = 0 \<or> tolower (byteAt b 1) = 0"
    by (simp_all add: strncasecmp_2 byteAt_def tolower_def)
  with assms(1) show False
    by (auto simp: tolower_zero) (simp add: tolower_def)
qed



lemma step_ident:
  assumes "connectionState c = CONNECTION_STATE_IDENTIFYING"
  shows "parseProxyIdentification cfg None e c =
     (if byteAt (buffer (msg c)) 1 = 0x00 \<or> strncasecmp (buffer (msg c)) (SERVER_NAME cfg @ [0x0A]) 2 \<noteq> 0
      then Inr (parseHeader cfg None e
                  ((emit ReadTimerCancel c)\<lparr>connectionState := CONNECTION_STATE_OPEN\<rparr>))
      else if size_t_minus (length (SERVER_NAME cfg @ [0x0A])) 2 > 0
      then Inr (try_arm_and_read e 0 (size_t_minus (length (SERVER_NAME cfg @ [0x0A])) 2)
                  To_parseProxyIdentification
                  ((emit ReadTimerCancel c)\<lparr>connectionState := CONNECTION_STATE_READINGS\<rparr>))
      else parseProxyIdentification_tail e
             ((emit ReadTimerCancel c)\<lparr>connectionState := CONNECTION_STATE_OPEN\<rparr>))"
  using assms
  by (simp add: parseProxyIdentification_def Let_def emit_fields del: strncasecmp.simps)

lemma step_reading:
  assumes "connectionState c = CONNECTION_STATE_READINGS"
  shows "parseProxyIdentification cfg None e c =
     (if strncasecmp (buffer (msg c)) (drop 2 (SERVER_NAME cfg @ [0x0A]))
           (size_t_minus (length (SERVER_NAME cfg @ [0x0A])) 2) = 0
      then parseProxyIdentification_tail e
             ((emit ReadTimerCancel c)\<lparr>connectionState := CONNECTION_STATE_OPEN\<rparr>)
      else Inr (close True e (emit (Log LogError) (emit ReadTimerCancel c))))"
  using assms
  by (simp add: parseProxyIdentification_def Let_def emit_fields del: strncasecmp.simps)

text \<open>
  C2. For a 2-byte read that completes without error in state IDENTIFYING,
  \<open>parseProxyIdentification\<close> falls back to header parsing (state OPEN, then
  \<open>parseHeader\<close> on the same buffer) exactly when the second byte is \<open>0x00\<close> or the two
  bytes do not match, without regard to case, the first two bytes of
  \<open>SERVER_NAME\<close> followed by a line feed. Otherwise the server name is not empty, and if
  \<open>SERVER_NAME\<close> followed by a line feed is longer than 2 bytes the state becomes READING_S and the
  remaining \<open>length - 2\<close> bytes are requested, completing in
  \<open>parseProxyIdentification\<close> again; if it is exactly 2 bytes long the state becomes OPEN
  and a fresh header read is requested. In READING_S a mismatch of the suffix, without
  regard to case, force-closes the connection, and a match sets the state OPEN and
  requests a fresh 2-byte header read completing in \<open>parseHeader\<close>. The comparison is
  \<open>strncasecmp\<close>: on two bytes it is the equality of the lower-cased bytes (stopping
  after a NUL), and on a NUL-free name it is the equality of the lower-cased suffix.
  The requests are stated through the source's own steps (\<open>try_arm_and_read\<close>,
  \<open>parseProxyIdentification_tail\<close>) and spelled out for the case that the reactor does
  not raise. Where the fresh header read is due and a reactor call raises, no read is
  requested: an exception of the request is caught and the connection force-closed; an
  exception of arming the timer, which is outside the \<^verbatim>\<open>try\<close> block, leaves the handler.
\<close>

theorem parseProxyIdentification_spec:
  "let serverName = SERVER_NAME cfg @ [0x0A];
       b = buffer (msg c);
       c0 = emit ReadTimerCancel c;
       fallback = (byteAt b 1 = 0x00 \<or> strncasecmp b serverName 2 \<noteq> 0);
       suffix_ok = (strncasecmp b (drop 2 serverName) (size_t_minus (length serverName) 2) = 0);
       r = parseProxyIdentification cfg None e c
   in (connectionState c = CONNECTION_STATE_IDENTIFYING \<and> fallback \<longrightarrow>
         r = Inr (parseHeader cfg None e (c0\<lparr>connectionState := CONNECTION_STATE_OPEN\<rparr>))) \<and>
      (connectionState c = CONNECTION_STATE_IDENTIFYING \<and> \<not> fallback \<longrightarrow>
         SERVER_NAME cfg \<noteq> [] \<and>
         (length serverName > 2 \<longrightarrow>
            r = Inr (try_arm_and_read e 0 (length serverName - 2) To_parseProxyIdentification
                       (c0\<lparr>connectionState := CONNECTION_STATE_READINGS\<rparr>))) \<and>
         (length serverName > 2 \<and> reactor e = NoRaise \<longrightarrow>
            r = Inr (c\<lparr>connectionState := CONNECTION_STATE_READINGS,
                        trace := trace c @ [ReadTimerCancel, ReadTimerArm,
                                            AsyncRead 0 (length serverName - 2)
                                              To_parseProxyIdentification]\<rparr>)) \<and>
         (length serverName = 2 \<longrightarrow>
            r = parseProxyIdentification_tail e
                  (c0\<lparr>connectionState := CONNECTION_STATE_OPEN\<rparr>))) \<and>
      (connectionState c = CONNECTION_STATE_READINGS \<and> \<not> suffix_ok \<longrightarrow>
         r = Inr (close True e (emit (Log LogError) c0))) \<and>
      (connectionState c = CONNECTION_STATE_READINGS \<and> suffix_ok \<longrightarrow>
         r = parseProxyIdentification_tail e (c0\<lparr>connectionState := CONNECTION_STATE_OPEN\<rparr>)) \<and>
      (reactor e = NoRaise \<longrightarrow>
         parseProxyIdentification_tail e (c0\<lparr>connectionState := CONNECTION_STATE_OPEN\<rparr>)
           = Inr (c\<lparr>connectionState := CONNECTION_STATE_OPEN,
                     trace := trace c @ [ReadTimerCancel, ReadTimerArm,
                                         AsyncRead 0 HEADER_LENGTH To_parseHeader]\<rparr>)) \<and>
      (reactor e = RequestRaises \<longrightarrow>
         parseProxyIdentification_tail e (c0\<lparr>connectionState := CONNECTION_STATE_OPEN\<rparr>)
           = Inr (close True e
                    (c\<lparr>connectionState := CONNECTION_STATE_OPEN,
                       trace := trace c @ [ReadTimerCancel, ReadTimerArm, Log LogError]\<rparr>))) \<and>
      (reactor e = TimerRaises \<longrightarrow>
         parseProxyIdentification_tail e (c0\<lparr>connectionState := CONNECTION_STATE_OPEN\<rparr>)
           = Inl UncaughtSystemError) \<and>
      (strncasecmp b serverName 2 = 0) =
         (tolower (byteAt b 0) = tolower (byteAt serverName 0) \<and>
          (byteAt b 0 = 0 \<or> tolower (byteAt b 1) = tolower (byteAt serverName 1))) \<and>
      (0 \<notin> set (SERVER_NAME cfg) \<and> SERVER_NAME cfg \<noteq> [] \<and>
       length serverName - 2 \<le> length b \<longrightarrow>
         suffix_ok = (map tolower (take (length serverName - 2) b)
                        = map tolower (drop 2 serverName)))"
proof -
  define serverName where "serverName = SERVER_NAME cfg @ [0x0A]"
  define b where "b = buffer (msg c)"
  define c0 where "c0 = emit ReadTimerCancel c"
  define fallback where "fallback = (byteAt b 1 = 0x00 \<or> strncasecmp b serverName 2 \<noteq> 0)"
  define suffix_ok where
    "suffix_ok = (strncasecmp b (drop 2 serverName) (size_t_minus (length serverName) 2) = 0)"
  define r where "r = parseProxyIdentification cfg None e c"
  have ident: "r = (if fallback
                    then Inr (parseHeader cfg None e
                                (c0\<lparr>connectionState := CONNECTION_STATE_OPEN\<rparr>))
                    else if size_t_minus (length serverName) 2 > 0
                    then Inr (try_arm_and_read e 0 (size_t_minus (length serverName) 2)
                                To_parseProxyIdentification
                                (c0\<lparr>connectionState := CONNECTION_STATE_READINGS\<rparr>))
                    else parseProxyIdentification_tail e
                           (c0\<lparr>connectionState := CONNECTION_STATE_OPEN\<rparr>))"
    if "connectionState c = CONNECTION_STATE_IDENTIFYING"
    unfolding r_def fallback_def c0_def b_def serverName_def by (rule step_ident [OF that])
  have reading: "r = (if suffix_ok
                      then parseProxyIdentification_tail e
                             (c0\<lparr>connectionState := CONNECTION_STATE_OPEN\<rparr>)
                      else Inr (close True e (emit (Log LogError) c0)))"
    if "connectionState c = CONNECTION_STATE_READINGS"
    unfolding r_def suffix_ok_def c0_def b_def serverName_def by (rule step_reading [OF that])
  have 1: "connectionState c = CONNECTION_STATE_IDENTIFYING \<Longrightarrow> fallback \<Longrightarrow>
         r = Inr (parseHeader cfg None e (c0\<lparr>connectionState := CONNECTION_STATE_OPEN\<rparr>))"
    by (simp only: ident if_True)
  have name: "SERVER_NAME cfg \<noteq> []" if "\<not> fallback"
  proof -
    from that have "byteAt b 1 \<noteq> 0" and "strncasecmp b (SERVER_NAME cfg @ [0x0A]) 2 = 0"
      unfolding fallback_def serverName_def by blast+
    then show ?thesis by (rule match_needs_name)
  qed
  have len: "2 \<le> length serverName" if "\<not> fallback"
    using name [OF that] by (cases "SERVER_NAME cfg") (simp_all add: serverName_def)
  have rem: "size_t_minus (length serverName) 2 = length serverName - 2" if "\<not> fallback"
    using len [OF that] by (simp add: size_t_minus_def)
  have 2: "connectionState c = CONNECTION_STATE_IDENTIFYING \<Longrightarrow> \<not> fallback \<Longrightarrow>
         length serverName > 2 \<Longrightarrow>
            r = Inr (try_arm_and_read e 0 (length serverName - 2) To_parseProxyIdentification
                       (c0\<lparr>connectionState := CONNECTION_STATE_READINGS\<rparr>))"
    using rem by (simp add: ident)
  have 3: "connectionState c = CONNECTION_STATE_IDENTIFYING \<Longrightarrow> \<not> fallback \<Longrightarrow>
         length serverName > 2 \<Longrightarrow> reactor e = NoRaise \<Longrightarrow>
            r = Inr (c\<lparr>connectionState := CONNECTION_STATE_READINGS,
                        trace := trace c @ [ReadTimerCancel, ReadTimerArm,
                                            AsyncRead 0 (length serverName - 2)
                                              To_parseProxyIdentification]\<rparr>)"
    by (simp add: 2 try_arm_and_read_def c0_def emit_def)
  have 4: "connectionState c = CONNECTION_STATE_IDENTIFYING \<Longrightarrow> \<not> fallback \<Longrightarrow>
         length serverName = 2 \<Longrightarrow>
            r = parseProxyIdentification_tail e
                  (c0\<lparr>connectionState := CONNECTION_STATE_OPEN\<rparr>)"
    using rem by (simp add: ident)
  have 5: "connectionState c = CONNECTION_STATE_READINGS \<Longrightarrow> \<not> suffix_ok \<Longrightarrow>
         r = Inr (close True e (emit (Log LogError) c0))"
    by (simp only: reading if_False)
  have 6: "connectionState c = CONNECTION_STATE_READINGS \<Longrightarrow> suffix_ok \<Longrightarrow>
         r = parseProxyIdentification_tail e (c0\<lparr>connectionState := CONNECTION_STATE_OPEN\<rparr>)"
    by (simp only: reading if_True)
  have 7: "reactor e = NoRaise \<longrightarrow>
         parseProxyIdentification_tail e (c0\<lparr>connectionState := CONNECTION_STATE_OPEN\<rparr>)
           = Inr (c\<lparr>connectionState := CONNECTION_STATE_OPEN,
                     trace := trace c @ [ReadTimerCancel, ReadTimerArm,
                                         AsyncRead 0 HEADER_LENGTH To_parseHeader]\<rparr>)"
    by (simp add: parseProxyIdentification_tail_def Let_def c0_def emit_def)
  have 71: "reactor e = RequestRaises \<longrightarrow>
         parseProxyIdentification_tail e (c0\<lparr>connectionState := CONNECTION_STATE_OPEN\<rparr>)
           = Inr (close True e
                    (c\<lparr>connectionState := CONNECTION_STATE_OPEN,
                       trace := trace c @ [ReadTimerCancel, ReadTimerArm, Log LogError]\<rparr>))"
    by (simp add: parseProxyIdentification_tail_def Let_def c0_def emit_def on_system_error_def)
  have 72: "reactor e = TimerRaises \<longrightarrow>
         parseProxyIdentification_tail e (c0\<lparr>connectionState := CONNECTION_STATE_OPEN\<rparr>)
           = Inl UncaughtSystemError"
    by (simp add: parseProxyIdentification_tail_def)
  have 8: "(strncasecmp b serverName 2 = 0) =
         (tolower (byteAt b 0) = tolower (byteAt serverName 0) \<and>
          (byteAt b 0 = 0 \<or> tolower (byteAt b 1) = tolower (byteAt serverName 1)))"
    by (rule strncasecmp_2)
  have 9: "suffix_ok = (map tolower (take (length serverName - 2) b)
                        = map tolower (drop 2 serverName))"
    if "0 \<notin> set (SERVER_NAME cfg)" and "SERVER_NAME cfg \<noteq> []"
      and "length serverName - 2 \<le> length b"
  proof -
    have l2: "2 \<le> length serverName"
      using that(2) by (cases "SERVER_NAME cfg") (simp_all add: serverName_def)
    have nz: "0 \<notin> set (drop 2 serverName)"
      using that(1) by (auto simp: serverName_def dest: in_set_dropD)
    have "suffix_ok = (strncasecmp b (drop 2 serverName) (length (drop 2 serverName)) = 0)"
      using l2 by (simp add: suffix_ok_def size_t_minus_def)
    also have "\<dots> = (map tolower (take (length (drop 2 serverName)) b)
                        = map tolower (drop 2 serverName))"
      using nz that(3) by (intro strncasecmp_map) simp_all
    finally show ?thesis by simp
  qed
  have C1: "connectionState c = CONNECTION_STATE_IDENTIFYING \<and> fallback \<longrightarrow>
         r = Inr (parseHeader cfg None e (c0\<lparr>connectionState := CONNECTION_STATE_OPEN\<rparr>))"
    using 1 by blast
  have C2: "connectionState c = CONNECTION_STATE_IDENTIFYING \<and> \<not> fallback \<longrightarrow>
         SERVER_NAME cfg \<noteq> [] \<and>
         (length serverName > 2 \<longrightarrow>
            r = Inr (try_arm_and_read e 0 (length serverName - 2) To_parseProxyIdentification
                       (c0\<lparr>connectionState := CONNECTION_STATE_READINGS\<rparr>))) \<and>
         (length serverName > 2 \<and> reactor e = NoRaise \<longrightarrow>
            r = Inr (c\<lparr>connectionState := CONNECTION_STATE_READINGS,
                        trace := trace c @ [ReadTimerCancel, ReadTimerArm,
                                            AsyncRead 0 (length serverName - 2)
                                              To_parseProxyIdentification]\<rparr>)) \<and>
         (length serverName = 2 \<longrightarrow>
            r = parseProxyIdentification_tail e
                  (c0\<lparr>connectionState := CONNECTION_STATE_OPEN\<rparr>))"
    using name 2 3 4 by blast
  have C5: "connectionState c = CONNECTION_STATE_READINGS \<and> \<not> suffix_ok \<longrightarrow>
         r = Inr (close True e (emit (Log LogError) c0))"
    using 5 by blast
  have C6: "connectionState c = CONNECTION_STATE_READINGS \<and> suffix_ok \<longrightarrow>
         r = parseProxyIdentification_tail e (c0\<lparr>connectionState := CONNECTION_STATE_OPEN\<rparr>)"
    using 6 by blast
  have C9: "0 \<notin> set (SERVER_NAME cfg) \<and> SERVER_NAME cfg \<noteq> [] \<and>
       length serverName - 2 \<le> length b \<longrightarrow>
         suffix_ok = (map tolower (take (length serverName - 2) b)
                        = map tolower (drop 2 serverName))"
    using 9 by blast
  show ?thesis
    unfolding Let_def r_def [symmetric] c0_def [symmetric] suffix_ok_def [symmetric]
      fallback_def [symmetric] b_def [symmetric] serverName_def [symmetric]
    by (intro conjI) (rule C1, rule C2, rule C5, rule C6, rule 7, rule 71, rule 72, rule 8, rule C9)
qed

theorem parseProxyIdentification_spec_witness:
  "parseProxyIdentification cfg_ot None env_quiet conn_ident
     = Inr (conn_ident\<lparr>connectionState := CONNECTION_STATE_READINGS,
                        trace := [ReadTimerCancel, ReadTimerArm,
                                  AsyncRead 0 1 To_parseProxyIdentification]\<rparr>) \<and>
   parseProxyIdentification cfg_ot None env_quiet conn_reading
     = Inr (conn_reading\<lparr>connectionState := CONNECTION_STATE_OPEN,
                          trace := [ReadTimerCancel, ReadTimerArm, AsyncRead 0 2 To_parseHeader]\<rparr>) \<and>
   parseProxyIdentification cfg_ot None (env_quiet\<lparr>reactor := TimerRaises\<rparr>) conn_reading
     = Inl UncaughtSystemError \<and>
   parseProxyIdentification cfg_ot None env_quiet conn_reading_wrong
     = Inr (close True env_quiet
              (conn_reading_wrong\<lparr>trace := [ReadTimerCancel, Log LogError]\<rparr>)) \<and>
   parseProxyIdentification cfg_ot None env_quiet conn_ident_header
     = Inr (parseHeader cfg_ot None env_quiet
              (conn_ident_header\<lparr>connectionState := CONNECTION_STATE_OPEN,
                                  trace := [ReadTimerCancel]\<rparr>))"
proof -
  have quiet: "reactor env_quiet = NoRaise"
    by (simp add: env_quiet_def)
  have loud: "reactor (env_quiet\<lparr>reactor := TimerRaises\<rparr>) = TimerRaises"
    by simp
  have name: "SERVER_NAME cfg_ot @ [0x0A] = [0x4F, 0x54, 0x0A]"
    by (simp add: cfg_ot_def)
  have a1: "connectionState conn_ident = CONNECTION_STATE_IDENTIFYING"
    by (simp add: conn_ident_def)
  have a2: "\<not> (byteAt (buffer (msg conn_ident)) 1 = 0x00 \<or>
               strncasecmp (buffer (msg conn_ident)) (SERVER_NAME cfg_ot @ [0x0A]) 2 \<noteq> 0)"
    unfolding name by (simp add: conn_ident_def strncasecmp_2 byteAt_def tolower_def)
  have a3: "length (SERVER_NAME cfg_ot @ [0x0A]) > 2"
    unfolding name by simp
  note TA = parseProxyIdentification_spec
    [where c = conn_ident and e = env_quiet and cfg = cfg_ot, unfolded Let_def]
  note TA2 = TA [THEN conjunct2, THEN conjunct1, THEN mp, OF conjI [OF a1 a2]]
  note TA3 = TA2 [THEN conjunct2, THEN conjunct2, THEN conjunct1, THEN mp, OF conjI [OF a3 quiet]]
  have A: "parseProxyIdentification cfg_ot None env_quiet conn_ident
     = Inr (conn_ident\<lparr>connectionState := CONNECTION_STATE_READINGS,
                        trace := [ReadTimerCancel, ReadTimerArm,
                                  AsyncRead 0 1 To_parseProxyIdentification]\<rparr>)"
    unfolding TA3 unfolding name by (simp add: conn_ident_def conn_fresh_def)
  have b1: "connectionState conn_reading = CONNECTION_STATE_READINGS"
    by (simp add: conn_reading_def)
  have b2: "strncasecmp (buffer (msg conn_reading)) (drop 2 (SERVER_NAME cfg_ot @ [0x0A]))
              (size_t_minus (length (SERVER_NAME cfg_ot @ [0x0A])) 2) = 0"
    unfolding name
    by (simp add: conn_reading_def msg_header_def size_t_minus_def byteAt_def tolower_def)
  note TB = parseProxyIdentification_spec
    [where c = conn_reading and e = env_quiet and cfg = cfg_ot, unfolded Let_def]
  note TB6 = TB [THEN conjunct2, THEN conjunct2, THEN conjunct2, THEN conjunct1, THEN mp,
                 OF conjI [OF b1 b2]]
  note TB7 = TB [THEN conjunct2, THEN conjunct2, THEN conjunct2, THEN conjunct2, THEN conjunct1,
                 THEN mp, OF quiet]
  have B: "parseProxyIdentification cfg_ot None env_quiet conn_reading
     = Inr (conn_reading\<lparr>connectionState := CONNECTION_STATE_OPEN,
                          trace := [ReadTimerCancel, ReadTimerArm, AsyncRead 0 2 To_parseHeader]\<rparr>)"
    unfolding TB6 TB7
    by (simp add: conn_reading_def conn_ident_def conn_fresh_def HEADER_LENGTH_def)
  note TE = parseProxyIdentification_spec
    [where c = conn_reading and e = "env_quiet\<lparr>reactor := TimerRaises\<rparr>" and cfg = cfg_ot,
     unfolded Let_def]
  note TE6 = TE [THEN conjunct2, THEN conjunct2, THEN conjunct2, THEN conjunct1, THEN mp,
                 OF conjI [OF b1 b2]]
  note TE7 = TE [THEN conjunct2, THEN conjunct2, THEN conjunct2, THEN conjunct2, THEN conjunct2,
                 THEN conjunct2, THEN conjunct1, THEN mp, OF loud]
  have E: "parseProxyIdentification cfg_ot None (env_quiet\<lparr>reactor := TimerRaises\<rparr>) conn_reading
     = Inl UncaughtSystemError"
    unfolding TE6 TE7 by (rule refl)
  have c1: "connectionState conn_reading_wrong = CONNECTION_STATE_READINGS"
    by (simp add: conn_reading_wrong_def conn_reading_def)
  have c2: "\<not> strncasecmp (buffer (msg conn_reading_wrong)) (drop 2 (SERVER_NAME cfg_ot @ [0x0A]))
              (size_t_minus (length (SERVER_NAME cfg_ot @ [0x0A])) 2) = 0"
    unfolding name
    by (simp add: conn_reading_wrong_def msg_header_def size_t_minus_def byteAt_def tolower_def)
  note TC = parseProxyIdentification_spec
    [where c = conn_reading_wrong and e = env_quiet and cfg = cfg_ot, unfolded Let_def]
  note TC5 = TC [THEN conjunct2, THEN conjunct2, THEN conjunct1, THEN mp, OF conjI [OF c1 c2]]
  have C: "parseProxyIdentification cfg_ot None env_quiet conn_reading_wrong
     = Inr (close True env_quiet
              (conn_reading_wrong\<lparr>trace := [ReadTimerCancel, Log LogError]\<rparr>))"
    unfolding TC5
    by (simp add: emit_def conn_reading_wrong_def conn_reading_def conn_ident_def conn_fresh_def)
  have d1: "connectionState conn_ident_header = CONNECTION_STATE_IDENTIFYING"
    by (simp add: conn_ident_header_def conn_ident_def)
  have d2: "byteAt (buffer (msg conn_ident_header)) 1 = 0x00 \<or>
            strncasecmp (buffer (msg conn_ident_header)) (SERVER_NAME cfg_ot @ [0x0A]) 2 \<noteq> 0"
    by (simp add: conn_ident_header_def msg_header_def byteAt_def)
  note TD = parseProxyIdentification_spec
    [where c = conn_ident_header and e = env_quiet and cfg = cfg_ot, unfolded Let_def]
  note TD1 = TD [THEN conjunct1, THEN mp, OF conjI [OF d1 d2]]
  have D: "parseProxyIdentification cfg_ot None env_quiet conn_ident_header
     = Inr (parseHeader cfg_ot None env_quiet
              (conn_ident_header\<lparr>connectionState := CONNECTION_STATE_OPEN,
                                  trace := [ReadTimerCancel]\<rparr>))"
    unfolding TD1
    by (simp add: emit_def conn_ident_header_def conn_ident_def conn_fresh_def)
  from A B E C D show ?thesis by (intro conjI)
qed

section \<open>The CLOSED state\<close>




























section \<open>Accepting connections\<close>

text \<open>
  C5, as stated, fails: \<open>onAccept\<close> returns at once when the service list is empty. On a
  port with an open acceptor and no services, an accept that completes without error
  leaves the port and the connection as they are: no further \<open>accept()\<close> is initiated
  (and the connection is neither accepted nor closed).
\<close>

theorem onAccept_no_services_counterexample:
  "acceptor port_empty = Some True \<and>
   services port_empty = [] \<and>
   onAccept cfg_ot None env_quiet (port_empty, conn_fresh) = (port_empty, conn_fresh) \<and>
   port_trace (fst (onAccept cfg_ot None env_quiet (port_empty, conn_fresh))) = [] \<and>
   count_list (port_trace (fst (onAccept cfg_ot None env_quiet (port_empty, conn_fresh)))) AsyncAccept = 0"
  by (simp add: onAccept_def port_empty_def)

text \<open>
  C5, amended. For every accept that completes without error on a port whose service
  list is not empty, \<open>onAccept\<close> ends by calling \<open>accept()\<close>, which (when the port has an
  acceptor) creates the next connection and starts the next asynchronous accept; this
  also happens when the address is 0 or the ban policy rejects it. The connection is
  force-closed when \<open>getIP\<close> returns 0 or the ban policy rejects the address; otherwise it
  is accepted, with a protocol made by the front service bound beforehand exactly when
  the front service is single-socket, and without a protocol otherwise. On a port with an
  empty service list \<open>onAccept\<close> does nothing at all.
\<close>

theorem onAccept_spec:
  "let remote_ip = fst (getIP e connection);
       conn1 = snd (getIP e connection);
       service = hd (services sp);
       r = onAccept cfg None e (sp, connection)
   in (services sp = [] \<longrightarrow> r = (sp, connection)) \<and>
      (services sp \<noteq> [] \<longrightarrow> fst r = accept_port sp) \<and>
      (services sp \<noteq> [] \<and> acceptor sp \<noteq> None \<longrightarrow>
         fst r = sp\<lparr>port_trace := port_trace sp @ [CreateConnection, AsyncAccept]\<rparr>) \<and>
      (services sp \<noteq> [] \<and> acceptor sp = None \<longrightarrow> fst r = sp) \<and>
      (services sp \<noteq> [] \<and> (remote_ip = 0 \<or> ban_acceptConnection e remote_ip = False) \<longrightarrow>
         snd r = close True e conn1) \<and>
      (services sp \<noteq> [] \<and> remote_ip \<noteq> 0 \<and> ban_acceptConnection e remote_ip \<and>
       is_single_socket service \<longrightarrow>
         snd r = accept_protocol (Service_make_protocol service) e conn1) \<and>
      (services sp \<noteq> [] \<and> remote_ip \<noteq> 0 \<and> ban_acceptConnection e remote_ip \<and>
       is_single_socket service = False \<longrightarrow>
         snd r = accept_plain e conn1) \<and>
      (reactor e = NoRaise \<longrightarrow>
         accept_protocol (Service_make_protocol service) e conn1
           = conn1\<lparr>connectionState := CONNECTION_STATE_IDENTIFYING,
                    protocol := Some (Protocol_of service),
                    trace := trace conn1 @
                      [AddEvent_onConnect (Protocol_of service), ReadTimerArm,
                       AsyncRead 0 HEADER_LENGTH To_parseProxyIdentification]\<rparr> \<and>
         accept_plain e conn1
           = conn1\<lparr>trace := trace conn1 @
                      [ReadTimerArm, AsyncRead 0 HEADER_LENGTH To_parseHeader]\<rparr>)"
proof -
  define remote_ip where "remote_ip = fst (getIP e connection)"
  define conn1 where "conn1 = snd (getIP e connection)"
  define service where "service = hd (services sp)"
  define r where "r = onAccept cfg None e (sp, connection)"
  have step: "r = (accept_port sp,
                   if remote_ip \<noteq> 0 \<and> ban_acceptConnection e remote_ip
                   then (if is_single_socket service
                         then accept_protocol (Service_make_protocol service) e conn1
                         else accept_plain e conn1)
                   else close True e conn1)"
    if "services sp \<noteq> []"
    using that unfolding r_def remote_ip_def conn1_def service_def
    by (simp add: onAccept_def Let_def split_beta)
  have 1: "services sp = [] \<longrightarrow> r = (sp, connection)"
    by (simp add: r_def onAccept_def)
  have 2: "services sp \<noteq> [] \<longrightarrow> fst r = accept_port sp"
    by (simp add: step)
  have 3: "services sp \<noteq> [] \<and> acceptor sp \<noteq> None \<longrightarrow>
         fst r = sp\<lparr>port_trace := port_trace sp @ [CreateConnection, AsyncAccept]\<rparr>"
    by (simp add: step accept_port_def)
  have 4: "services sp \<noteq> [] \<and> acceptor sp = None \<longrightarrow> fst r = sp"
    by (simp add: step accept_port_def)
  have 5: "services sp \<noteq> [] \<and> (remote_ip = 0 \<or> ban_acceptConnection e remote_ip = False) \<longrightarrow>
         snd r = close True e conn1"
    by (auto simp: step)
  have 6: "services sp \<noteq> [] \<and> remote_ip \<noteq> 0 \<and> ban_acceptConnection e remote_ip \<and>
       is_single_socket service \<longrightarrow>
         snd r = accept_protocol (Service_make_protocol service) e conn1"
    by (simp add: step)
  have 7: "services sp \<noteq> [] \<and> remote_ip \<noteq> 0 \<and> ban_acceptConnection e remote_ip \<and>
       is_single_socket service = False \<longrightarrow>
         snd r = accept_plain e conn1"
    by (simp add: step)
  have 8: "reactor e = NoRaise \<longrightarrow>
         accept_protocol (Service_make_protocol service) e conn1
           = conn1\<lparr>connectionState := CONNECTION_STATE_IDENTIFYING,
                    protocol := Some (Protocol_of service),
                    trace := trace conn1 @
                      [AddEvent_onConnect (Protocol_of service), ReadTimerArm,
                       AsyncRead 0 HEADER_LENGTH To_parseProxyIdentification]\<rparr> \<and>
         accept_plain e conn1
           = conn1\<lparr>trace := trace conn1 @
                      [ReadTimerArm, AsyncRead 0 HEADER_LENGTH To_parseHeader]\<rparr>"
    by (simp add: accept_protocol_def accept_plain_def try_arm_and_read_def
          Service_make_protocol_def emit_def)
  show ?thesis
    unfolding Let_def r_def [symmetric] service_def [symmetric] conn1_def [symmetric]
      remote_ip_def [symmetric]
    by (intro conjI) (rule 1, rule 2, rule 3, rule 4, rule 5, rule 6, rule 7, rule 8)
qed

theorem onAccept_spec_witness:
  "onAccept cfg_ot None env_peer (port_game, conn_fresh)
     = (port_game\<lparr>port_trace := [CreateConnection, AsyncAccept]\<rparr>,
        conn_fresh\<lparr>connectionState := CONNECTION_STATE_IDENTIFYING, ip := 0x0100007F,
                     protocol := Some (Protocol_of svc_game),
                     trace := [RemoteEndpointQuery, AddEvent_onConnect (Protocol_of svc_game),
                               ReadTimerArm, AsyncRead 0 2 To_parseProxyIdentification]\<rparr>) \<and>
   onAccept cfg_ot None env_peer (port_login, conn_fresh)
     = (port_login\<lparr>port_trace := [CreateConnection, AsyncAccept]\<rparr>,
        conn_fresh\<lparr>ip := 0x0100007F,
                     trace := [RemoteEndpointQuery, ReadTimerArm, AsyncRead 0 2 To_parseHeader]\<rparr>) \<and>
   onAccept cfg_ot None (env_peer\<lparr>ban_acceptConnection := (\<lambda>a. False)\<rparr>) (port_login, conn_fresh)
     = (port_login\<lparr>port_trace := [CreateConnection, AsyncAccept]\<rparr>,
        close True (env_peer\<lparr>ban_acceptConnection := (\<lambda>a. False)\<rparr>)
          (conn_fresh\<lparr>ip := 0x0100007F, trace := [RemoteEndpointQuery]\<rparr>)) \<and>
   onAccept cfg_ot None env_quiet (port_login, conn_fresh)
     = (port_login\<lparr>port_trace := [CreateConnection, AsyncAccept]\<rparr>,
        close True env_quiet
          (conn_fresh\<lparr>ip := 0, trace := [RemoteEndpointQuery, Log LogError]\<rparr>))"
proof -
  have quiet: "reactor env_peer = NoRaise"
    by (simp add: env_peer_def env_quiet_def)
  have g: "getIP env_peer conn_fresh
             = (0x0100007F, conn_fresh\<lparr>ip := 0x0100007F, trace := [RemoteEndpointQuery]\<rparr>)"
    by (simp add: getIP_def env_peer_def env_quiet_def conn_fresh_def emit_def)
  have ip: "fst (getIP env_peer conn_fresh) \<noteq> 0"
    by (simp add: g)
  have ban: "ban_acceptConnection env_peer (fst (getIP env_peer conn_fresh))"
    by (simp add: env_peer_def env_quiet_def)
  have game: "services port_game \<noteq> []" "acceptor port_game \<noteq> None"
    "is_single_socket (hd (services port_game))" "hd (services port_game) = svc_game"
    by (simp_all add: port_game_def port_empty_def svc_game_def)
  have login: "services port_login \<noteq> []" "acceptor port_login \<noteq> None"
    "is_single_socket (hd (services port_login)) = False"
    by (simp_all add: port_login_def port_empty_def svc_login_def)
  note TA = onAccept_spec [where cfg = cfg_ot and e = env_peer and sp = port_game
                             and connection = conn_fresh, unfolded Let_def]
  note TA3 = TA [THEN conjunct2, THEN conjunct2, THEN conjunct1, THEN mp,
                 OF conjI [OF game(1) game(2)]]
  note TA6 = TA [THEN conjunct2, THEN conjunct2, THEN conjunct2, THEN conjunct2, THEN conjunct2,
                 THEN conjunct1, THEN mp, OF conjI [OF game(1) conjI [OF ip conjI [OF ban game(3)]]]]
  note TA8 = TA [THEN conjunct2, THEN conjunct2, THEN conjunct2, THEN conjunct2, THEN conjunct2,
                 THEN conjunct2, THEN conjunct2, THEN mp, OF quiet, THEN conjunct1]
  have A: "onAccept cfg_ot None env_peer (port_game, conn_fresh)
     = (port_game\<lparr>port_trace := [CreateConnection, AsyncAccept]\<rparr>,
        conn_fresh\<lparr>connectionState := CONNECTION_STATE_IDENTIFYING, ip := 0x0100007F,
                     protocol := Some (Protocol_of svc_game),
                     trace := [RemoteEndpointQuery, AddEvent_onConnect (Protocol_of svc_game),
                               ReadTimerArm, AsyncRead 0 2 To_parseProxyIdentification]\<rparr>)"
  proof (rule prod_eqI)
    show "fst (onAccept cfg_ot None env_peer (port_game, conn_fresh))
            = fst (port_game\<lparr>port_trace := [CreateConnection, AsyncAccept]\<rparr>,
                   conn_fresh\<lparr>connectionState := CONNECTION_STATE_IDENTIFYING, ip := 0x0100007F,
                     protocol := Some (Protocol_of svc_game),
                     trace := [RemoteEndpointQuery, AddEvent_onConnect (Protocol_of svc_game),
                               ReadTimerArm, AsyncRead 0 2 To_parseProxyIdentification]\<rparr>)"
      unfolding TA3 by (simp add: port_game_def port_empty_def)
    show "snd (onAccept cfg_ot None env_peer (port_game, conn_fresh))
            = snd (port_game\<lparr>port_trace := [CreateConnection, AsyncAccept]\<rparr>,
                   conn_fresh\<lparr>connectionState := CONNECTION_STATE_IDENTIFYING, ip := 0x0100007F,
                     protocol := Some (Protocol_of svc_game),
                     trace := [RemoteEndpointQuery, AddEvent_onConnect (Protocol_of svc_game),
                               ReadTimerArm, AsyncRead 0 2 To_parseProxyIdentification]\<rparr>)"
      unfolding TA6 TA8 unfolding g game(4)
      by (simp add: conn_fresh_def HEADER_LENGTH_def)
  qed
  note TB = onAccept_spec [where cfg = cfg_ot and e = env_peer and sp = port_login
                             and connection = conn_fresh, unfolded Let_def]
  note TB3 = TB [THEN conjunct2, THEN conjunct2, THEN conjunct1, THEN mp,
                 OF conjI [OF login(1) login(2)]]
  note TB7 = TB [THEN conjunct2, THEN conjunct2, THEN conjunct2, THEN conjunct2, THEN conjunct2,
                 THEN conjunct2, THEN conjunct1, THEN mp,
                 OF conjI [OF login(1) conjI [OF ip conjI [OF ban login(3)]]]]
  note TB8 = TB [THEN conjunct2, THEN conjunct2, THEN conjunct2, THEN conjunct2, THEN conjunct2,
                 THEN conjunct2, THEN conjunct2, THEN mp, OF quiet, THEN conjunct2]
  have B: "onAccept cfg_ot None env_peer (port_login, conn_fresh)
     = (port_login\<lparr>port_trace := [CreateConnection, AsyncAccept]\<rparr>,
        conn_fresh\<lparr>ip := 0x0100007F,
                     trace := [RemoteEndpointQuery, ReadTimerArm, AsyncRead 0 2 To_parseHeader]\<rparr>)"
  proof (rule prod_eqI)
    show "fst (onAccept cfg_ot None env_peer (port_login, conn_fresh))
            = fst (port_login\<lparr>port_trace := [CreateConnection, AsyncAccept]\<rparr>,
        conn_fresh\<lparr>ip := 0x0100007F,
                     trace := [RemoteEndpointQuery, ReadTimerArm, AsyncRead 0 2 To_parseHeader]\<rparr>)"
      unfolding TB3 by (simp add: port_login_def port_empty_def)
    show "snd (onAccept cfg_ot None env_peer (port_login, conn_fresh))
            = snd (port_login\<lparr>port_trace := [CreateConnection, AsyncAccept]\<rparr>,
        conn_fresh\<lparr>ip := 0x0100007F,
                     trace := [RemoteEndpointQuery, ReadTimerArm, AsyncRead 0 2 To_parseHeader]\<rparr>)"
      unfolding TB7 TB8 unfolding g by (simp add: conn_fresh_def HEADER_LENGTH_def)
  qed
  define env_ban where "env_ban = env_peer\<lparr>ban_acceptConnection := (\<lambda>a. False)\<rparr>"
  have gb: "getIP env_ban conn_fresh
             = (0x0100007F, conn_fresh\<lparr>ip := 0x0100007F, trace := [RemoteEndpointQuery]\<rparr>)"
    by (simp add: getIP_def env_ban_def env_peer_def env_quiet_def conn_fresh_def emit_def)
  have rej: "fst (getIP env_ban conn_fresh) = 0 \<or>
             ban_acceptConnection env_ban (fst (getIP env_ban conn_fresh)) = False"
    by (simp add: env_ban_def)
  note TC = onAccept_spec [where cfg = cfg_ot and e = env_ban and sp = port_login
                             and connection = conn_fresh, unfolded Let_def]
  note TC3 = TC [THEN conjunct2, THEN conjunct2, THEN conjunct1, THEN mp,
                 OF conjI [OF login(1) login(2)]]
  note TC5 = TC [THEN conjunct2, THEN conjunct2, THEN conjunct2, THEN conjunct2, THEN conjunct1,
                 THEN mp, OF conjI [OF login(1) rej]]
  have C: "onAccept cfg_ot None env_ban (port_login, conn_fresh)
     = (port_login\<lparr>port_trace := [CreateConnection, AsyncAccept]\<rparr>,
        close True env_ban (conn_fresh\<lparr>ip := 0x0100007F, trace := [RemoteEndpointQuery]\<rparr>))"
  proof (rule prod_eqI)
    show "fst (onAccept cfg_ot None env_ban (port_login, conn_fresh))
            = fst (port_login\<lparr>port_trace := [CreateConnection, AsyncAccept]\<rparr>,
        close True env_ban (conn_fresh\<lparr>ip := 0x0100007F, trace := [RemoteEndpointQuery]\<rparr>))"
      unfolding TC3 by (simp add: port_login_def port_empty_def)
    show "snd (onAccept cfg_ot None env_ban (port_login, conn_fresh))
            = snd (port_login\<lparr>port_trace := [CreateConnection, AsyncAccept]\<rparr>,
        close True env_ban (conn_fresh\<lparr>ip := 0x0100007F, trace := [RemoteEndpointQuery]\<rparr>))"
      unfolding TC5 unfolding gb by simp
  qed
  have gq: "getIP env_quiet conn_fresh
             = (0, conn_fresh\<lparr>ip := 0, trace := [RemoteEndpointQuery, Log LogError]\<rparr>)"
    by (simp add: getIP_def env_quiet_def conn_fresh_def emit_def)
  have zero: "fst (getIP env_quiet conn_fresh) = 0 \<or>
             ban_acceptConnection env_quiet (fst (getIP env_quiet conn_fresh)) = False"
    by (simp add: gq)
  note TD = onAccept_spec [where cfg = cfg_ot and e = env_quiet and sp = port_login
                             and connection = conn_fresh, unfolded Let_def]
  note TD3 = TD [THEN conjunct2, THEN conjunct2, THEN conjunct1, THEN mp,
                 OF conjI [OF login(1) login(2)]]
  note TD5 = TD [THEN conjunct2, THEN conjunct2, THEN conjunct2, THEN conjunct2, THEN conjunct1,
                 THEN mp, OF conjI [OF login(1) zero]]
  have D: "onAccept cfg_ot None env_quiet (port_login, conn_fresh)
     = (port_login\<lparr>port_trace := [CreateConnection, AsyncAccept]\<rparr>,
        close True env_quiet
          (conn_fresh\<lparr>ip := 0, trace := [RemoteEndpointQuery, Log LogError]\<rparr>))"
  proof (rule prod_eqI)
    show "fst (onAccept cfg_ot None env_quiet (port_login, conn_fresh))
            = fst (port_login\<lparr>port_trace := [CreateConnection, AsyncAccept]\<rparr>,
        close True env_quiet
          (conn_fresh\<lparr>ip := 0, trace := [RemoteEndpointQuery, Log LogError]\<rparr>))"
      unfolding TD3 by (simp add: port_login_def port_empty_def)
    show "snd (onAccept cfg_ot None env_quiet (port_login, conn_fresh))
            = snd (port_login\<lparr>port_trace := [CreateConnection, AsyncAccept]\<rparr>,
        close True env_quiet
          (conn_fresh\<lparr>ip := 0, trace := [RemoteEndpointQuery, Log LogError]\<rparr>))"
      unfolding TD5 unfolding gq by simp
  qed
  from A B C [unfolded env_ban_def] D show ?thesis by (intro conjI)
qed

end
